theory Spec2Isabelle
  imports Complex_Main "HOL-Library.Sublist" "HOL-Library.AList"
begin

chapter \<open>The ONU monitoring proxy: call gate, result cache, aggregation\<close>

text \<open>
  A shallow embedding of the server side of the ONU monitoring application: the rate
  limiter (\<^verbatim>\<open>RateLimiter\<close>), the upstream client (\<^verbatim>\<open>ApiService\<close>), the cache
  (\<^verbatim>\<open>CacheService\<close>) and the aggregation (\<^verbatim>\<open>OnuService\<close>), with the properties
  C1 to C10 of its specification settled on it. The repository holds two variants of
  \<^verbatim>\<open>ApiService\<close> and of \<^verbatim>\<open>OnuService\<close>; where they differ both are embedded, the
  one of \<^verbatim>\<open>src/services\<close> under the source's name and the other under a suffixed
  name. State is passed explicitly, exceptions are values of type \<open>error\<close>, and what
  the environment decides (clock readings, the outcome of an HTTP request) is an
  argument. The definitions come first, the results after them.
\<close>

section \<open>JavaScript values\<close>

text \<open>
  The services exchange plain JSON-like values: upstream responses, device records,
  cached payloads. Numbers are modelled as exact rationals together with the three
  special values of a JavaScript number; the rounding of doubles is not modelled.
  Strings are lists of 8-bit characters (ASCII text; a character beyond ASCII is the
  bytes of its UTF-8 encoding). An object is the list of its own properties in
  insertion order.
\<close>

datatype jsnum = NaN | PosInf | NegInf | Fin rat

datatype jsval =
    JUndefined
  | JNull
  | JBool bool
  | JNum jsnum
  | JStr string
  | JArr "jsval list"
  | JObj "(string \<times> jsval) list"

text \<open>Exceptions of the program, as values.\<close>

datatype error =
    TypeError
  | InvalidApiKeyConfigured
  | RateLimitExceeded string "int option"
  | EmptyResponse
  | InvalidApiKeyReported
  | ApiError jsval
  | Forbidden403
  | Unauthorized401
  | HttpFailure "nat option"
  | InvalidResponse string
  | FailedToGetOnuDetails
  | StorageFault

text \<open>ToBoolean: what \<^verbatim>\<open>if (v)\<close>, \<^verbatim>\<open>!v\<close>, \<^verbatim>\<open>a || b\<close> and \<^verbatim>\<open>a && b\<close> test.\<close>

fun truthy :: "jsval \<Rightarrow> bool" where
  "truthy JUndefined = False"
| "truthy JNull = False"
| "truthy (JBool b) = b"
| "truthy (JNum NaN) = False"
| "truthy (JNum (Fin r)) = (r \<noteq> 0)"
| "truthy (JNum PosInf) = True"
| "truthy (JNum NegInf) = True"
| "truthy (JStr s) = (s \<noteq> [])"
| "truthy (JArr xs) = True"
| "truthy (JObj ps) = True"

definition js_or :: "jsval \<Rightarrow> jsval \<Rightarrow> jsval" where
  "js_or a b = (if truthy a then a else b)"

text \<open>
  Strict equality \<^verbatim>\<open>===\<close>. Primitive values compare by value, \<^verbatim>\<open>NaN\<close> equals
  nothing. Arrays and objects compare by identity; in every comparison the program
  makes, one operand is a string or boolean literal or a status string just computed,
  so an operand that is an array or an object compares unequal.
\<close>

fun strict_eq :: "jsval \<Rightarrow> jsval \<Rightarrow> bool" where
  "strict_eq (JNum NaN) b = False"
| "strict_eq (JArr xs) b = False"
| "strict_eq (JObj ps) b = False"
| "strict_eq a b = (a = b)"

text \<open>
  Reading a property \<^verbatim>\<open>v.k\<close>, for the property names this program reads (none of
  them is \<^verbatim>\<open>length\<close> or an index): \<^verbatim>\<open>undefined\<close> and \<^verbatim>\<open>null\<close> have no
  properties and the read throws; a primitive or an array has none of these names.
\<close>

definition hasProps :: "jsval \<Rightarrow> bool" where
  "hasProps v = (v \<noteq> JUndefined \<and> v \<noteq> JNull)"

fun propOf :: "jsval \<Rightarrow> string \<Rightarrow> jsval" where
  "propOf (JObj ps) k = (case map_of ps k of Some v \<Rightarrow> v | None \<Rightarrow> JUndefined)"
| "propOf v k = JUndefined"

definition getProp :: "jsval \<Rightarrow> string \<Rightarrow> error + jsval" where
  "getProp v k = (if hasProps v then Inr (propOf v k) else Inl TypeError)"

text \<open>Writing a property keeps the position of a key the object already has.\<close>

definition setProp :: "string \<Rightarrow> jsval \<Rightarrow> (string \<times> jsval) list \<Rightarrow> (string \<times> jsval) list" where
  "setProp k v ps = AList.update k v ps"

section \<open>Strings\<close>

text \<open>
  \<^verbatim>\<open>toLowerCase\<close> on ASCII text: the 26 capitals are lowered, every other character
  stays as it is (JavaScript also lowers capitals beyond ASCII; status strings are
  ASCII words).
\<close>

definition toLowerChar :: "char \<Rightarrow> char" where
  "toLowerChar c =
     (case map_of (zip ''ABCDEFGHIJKLMNOPQRSTUVWXYZ'' ''abcdefghijklmnopqrstuvwxyz'') c of
        Some l \<Rightarrow> l
      | None \<Rightarrow> c)"

definition toLowerCase :: "string \<Rightarrow> string" where
  "toLowerCase s = map toLowerChar s"

text \<open>\<^verbatim>\<open>s.includes(sub)\<close>: \<open>sub\<close> occurs in \<open>s\<close> as a contiguous run.\<close>

fun str_includes :: "string \<Rightarrow> string \<Rightarrow> bool" where
  "str_includes [] sub = (sub = [])"
| "str_includes (c # cs) sub = (prefix sub (c # cs) \<or> str_includes cs sub)"

text \<open>White space, as far as it is ASCII: tab, line feed, vertical tab, form feed,
  carriage return, space.\<close>

definition isWhiteSpace :: "char \<Rightarrow> bool" where
  "isWhiteSpace c = (c \<in> set [CHR 0x09, CHR 0x0A, CHR 0x0B, CHR 0x0C, CHR 0x0D, CHR 0x20])"

definition trim :: "string \<Rightarrow> string" where
  "trim s = rev (dropWhile isWhiteSpace (rev (dropWhile isWhiteSpace s)))"

section \<open>Status classification\<close>

text \<open>
  \<^verbatim>\<open>determineOnuStatus(statusString, lastDownCause = null)\<close> of
  \<^verbatim>\<open>src/services/onuService.js\<close>. A truthy argument that is not a string has no
  \<^verbatim>\<open>toLowerCase\<close> method: the call throws a TypeError.
\<close>

definition determineOnuStatus :: "jsval \<Rightarrow> jsval \<Rightarrow> error + string" where
  "determineOnuStatus statusString lastDownCause =
     (if \<not> truthy statusString then Inr ''Offline''
      else case statusString of
        JStr s \<Rightarrow>
          (let status = toLowerCase s in
           if status = ''online'' then Inr ''Online''
           else if status = ''los'' \<or> str_includes status ''los'' then Inr ''LOS''
           else if status = ''power fail'' \<or> str_includes status ''power'' then Inr ''Power Fail''
           else if status = ''offline'' then Inr ''Offline''
           else if truthy lastDownCause then
             (case lastDownCause of
                JStr c \<Rightarrow>
                  (let cause = toLowerCase c in
                   if str_includes cause ''los'' \<or> str_includes cause ''signal'' then Inr ''LOS''
                   else if str_includes cause ''power'' \<or> str_includes cause ''dying-gasp''
                   then Inr ''Power Fail''
                   else Inr ''Offline'')
              | _ \<Rightarrow> Inl TypeError)
           else Inr ''Offline'')
      | _ \<Rightarrow> Inl TypeError)"

text \<open>
  The second variant of the repository (the service file that also computes the
  statistics): one argument, the lowered string is trimmed, no fallback.
\<close>

definition determineOnuStatus_trim :: "jsval \<Rightarrow> error + string" where
  "determineOnuStatus_trim statusString =
     (if \<not> truthy statusString then Inr ''Offline''
      else case statusString of
        JStr s \<Rightarrow>
          (let status = trim (toLowerCase s) in
           if status = ''online'' then Inr ''Online''
           else if status = ''los'' \<or> str_includes status ''los'' then Inr ''LOS''
           else if status = ''power fail'' \<or> str_includes status ''power'' then Inr ''Power Fail''
           else if status = ''offline'' then Inr ''Offline''
           else Inr ''Offline'')
      | _ \<Rightarrow> Inl TypeError)"

text \<open>The four normalized status values.\<close>

definition statuses :: "string set" where
  "statuses = {''Online'', ''LOS'', ''Power Fail'', ''Offline''}"

text \<open>A raw status as the claim has it: a string, or null, or absent.\<close>

fun rawStatus :: "string option \<Rightarrow> jsval" where
  "rawStatus None = JNull"
| "rawStatus (Some s) = JStr s"

section \<open>Call gate: the rate limiter\<close>

text \<open>
  \<^verbatim>\<open>class RateLimiter\<close> of \<^verbatim>\<open>src/utils/rateLimiter.js\<close>. Instants are
  \<^verbatim>\<open>Date.now()\<close> readings, integers in milliseconds; every function that reads the
  clock takes the reading as an argument. The two lists of \<^verbatim>\<open>callCounts\<close> are the
  fields \<open>callCounts_gps\<close> and \<open>callCounts_details\<close>.
\<close>

record rl_config =
  apiDelay :: int
  gpsLimit :: int
  detailsLimit :: int

record rl_state =
  lastCallTime :: int
  callCounts_gps :: "int list"
  callCounts_details :: "int list"

definition newRateLimiter :: rl_state where
  "newRateLimiter = \<lparr>lastCallTime = 0, callCounts_gps = [], callCounts_details = []\<rparr>"

text \<open>\<^verbatim>\<open>['gps', 'details'].includes(endpointType)\<close>\<close>

definition restricted :: "string \<Rightarrow> bool" where
  "restricted endpointType = (endpointType \<in> set [''gps'', ''details''])"

text \<open>\<^verbatim>\<open>this.callCounts[endpointType]\<close>, read and written, for a restricted type.\<close>

definition callsOf :: "string \<Rightarrow> rl_state \<Rightarrow> int list" where
  "callsOf endpointType s =
     (if endpointType = ''gps'' then callCounts_gps s else callCounts_details s)"

definition setCalls :: "string \<Rightarrow> int list \<Rightarrow> rl_state \<Rightarrow> rl_state" where
  "setCalls endpointType ts s =
     (if endpointType = ''gps'' then s\<lparr>callCounts_gps := ts\<rparr> else s\<lparr>callCounts_details := ts\<rparr>)"

definition limitOf :: "rl_config \<Rightarrow> string \<Rightarrow> int" where
  "limitOf cfg endpointType = (if endpointType = ''gps'' then gpsLimit cfg else detailsLimit cfg)"

definition hourMs :: int where
  "hourMs = 60 * 60 * 1000"

text \<open>\<^verbatim>\<open>Math.ceil(a / b)\<close> on integers, \<open>b\<close> positive.\<close>

definition ceilDiv :: "int \<Rightarrow> int \<Rightarrow> int" where
  "ceilDiv a b = - ((- a) div b)"

text \<open>
  The result of \<^verbatim>\<open>canCallEndpoint\<close>: \<^verbatim>\<open>{allowed: true}\<close>, or
  \<^verbatim>\<open>{allowed: false, waitMinutes, resetTime}\<close>. With an empty list (a limit of zero or
  less) \<^verbatim>\<open>oldestCall\<close> is undefined and both numbers are NaN: \<open>None\<close>.
\<close>

datatype limitCheck = Allowed | Denied (waitMinutes: "int option") (resetTime: "int option")

definition pruneCalls :: "int \<Rightarrow> int list \<Rightarrow> int list" where
  "pruneCalls now ts = (let oneHourAgo = now - hourMs in filter (\<lambda>timestamp. timestamp > oneHourAgo) ts)"

definition canCallEndpoint :: "rl_config \<Rightarrow> int \<Rightarrow> string \<Rightarrow> rl_state \<Rightarrow> limitCheck \<times> rl_state" where
  "canCallEndpoint cfg now endpointType s =
     (if \<not> restricted endpointType then (Allowed, s)
      else
        let s' = setCalls endpointType (pruneCalls now (callsOf endpointType s)) s;
            limit = limitOf cfg endpointType;
            currentCount = int (length (callsOf endpointType s'))
        in if currentCount \<ge> limit then
             (case callsOf endpointType s' of
                [] \<Rightarrow> (Denied None None, s')
              | oldestCall # rest \<Rightarrow>
                  (let resetTime = oldestCall + hourMs;
                       waitMinutes = ceilDiv (resetTime - now) (60 * 1000)
                   in (Denied (Some waitMinutes) (Some resetTime), s')))
           else (Allowed, s'))"

definition recordCall :: "int \<Rightarrow> string \<Rightarrow> rl_state \<Rightarrow> rl_state" where
  "recordCall now endpointType s =
     (if restricted endpointType then setCalls endpointType (callsOf endpointType s @ [now]) s
      else s)"

text \<open>\<^verbatim>\<open>getRemainingCalls\<close>: \<open>None\<close> is the \<^verbatim>\<open>null\<close> of an unrestricted type.\<close>

definition getRemainingCalls :: "rl_config \<Rightarrow> int \<Rightarrow> string \<Rightarrow> rl_state \<Rightarrow> int option \<times> rl_state" where
  "getRemainingCalls cfg now endpointType s =
     (if \<not> restricted endpointType then (None, s)
      else
        let s' = setCalls endpointType (pruneCalls now (callsOf endpointType s)) s
        in (Some (limitOf cfg endpointType - int (length (callsOf endpointType s'))), s'))"

text \<open>Recording calls one after the other, at the given clock readings.\<close>

fun recordCalls :: "int list \<Rightarrow> string \<Rightarrow> rl_state \<Rightarrow> rl_state" where
  "recordCalls [] endpointType s = s"
| "recordCalls (t # ts) endpointType s = recordCalls ts endpointType (recordCall t endpointType s)"

text \<open>
  \<^verbatim>\<open>waitForNextCall\<close> runs in two pieces, cut at its \<^verbatim>\<open>await\<close>. On entry it reads
  the clock and the last-call instant and decides how long to sleep (\<open>sleepTime\<close>,
  \<open>None\<close> when it does not sleep); when it goes on, after the sleep if there was one,
  it reads the clock again and stores that reading (\<open>stampLastCall\<close>).
\<close>

definition sleepTime :: "rl_config \<Rightarrow> int \<Rightarrow> rl_state \<Rightarrow> int option" where
  "sleepTime cfg now s =
     (let timeSinceLastCall = now - lastCallTime s
      in if timeSinceLastCall < apiDelay cfg then Some (apiDelay cfg - timeSinceLastCall)
         else None)"

definition stampLastCall :: "int \<Rightarrow> rl_state \<Rightarrow> rl_state" where
  "stampLastCall now s = s\<lparr>lastCallTime := now\<rparr>"

text \<open>One invocation that nothing interleaves with: entered at \<open>now\<close>, completed at \<open>now'\<close>.\<close>

definition waitForNextCall :: "rl_config \<Rightarrow> int \<Rightarrow> int \<Rightarrow> rl_state \<Rightarrow> rl_state" where
  "waitForNextCall cfg now now' s = stampLastCall now' s"

text \<open>
  The timer and the clock, as the environment provides them: a sleep of \<open>w\<close>
  milliseconds ends no earlier than \<open>w\<close> milliseconds after it began, and the clock
  does not run backwards.
\<close>

definition timerHonoured :: "rl_config \<Rightarrow> int \<Rightarrow> int \<Rightarrow> rl_state \<Rightarrow> bool" where
  "timerHonoured cfg now now' s =
     (case sleepTime cfg now s of Some w \<Rightarrow> now + w \<le> now' | None \<Rightarrow> now \<le> now')"

section \<open>Upstream requests\<close>

text \<open>
  \<^verbatim>\<open>ApiService.makeRequest\<close> of \<^verbatim>\<open>src/services/apiService.js\<close>. The HTTP client
  is the environment: its outcome for this request is an argument, either a rejected
  promise (with the HTTP status of \<^verbatim>\<open>error.response\<close>, if there is one) or a
  response carrying \<^verbatim>\<open>response.data\<close>. So are the four clock readings the request
  makes: in the quota check, on entering and on leaving the throttle, and when the call
  is recorded.
\<close>

datatype http_result = HttpFail "nat option" | HttpOk jsval

record request_clock =
  atCheck :: int
  atEnter :: int
  atResume :: int
  atRecord :: int

text \<open>The block under \<^verbatim>\<open>// Validate response\<close>.\<close>

definition validateResponse :: "jsval \<Rightarrow> error + jsval" where
  "validateResponse data =
     (if \<not> truthy data then Inl EmptyResponse
      else case getProp data ''status'' of
        Inl e \<Rightarrow> Inl e
      | Inr st \<Rightarrow>
          if strict_eq st (JBool False) then
            (case getProp data ''error'' of
               Inl e \<Rightarrow> Inl e
             | Inr er \<Rightarrow>
                 (let errorMsg = js_or er (JStr ''API returned error status'') in
                  case errorMsg of
                    JStr m \<Rightarrow>
                      if str_includes (toLowerCase m) ''invalid api key''
                      then Inl InvalidApiKeyReported
                      else Inl (ApiError errorMsg)
                  | _ \<Rightarrow> Inl TypeError))
          else Inr data)"

text \<open>The \<^verbatim>\<open>catch\<close> block, for an error of the HTTP client.\<close>

definition rethrow :: "nat option \<Rightarrow> error" where
  "rethrow st =
     (if st = Some 403 then Forbidden403
      else if st = Some 401 then Unauthorized401
      else HttpFailure st)"

definition makeRequest ::
  "rl_config \<Rightarrow> jsval \<Rightarrow> string \<Rightarrow> request_clock \<Rightarrow> http_result \<Rightarrow> rl_state
     \<Rightarrow> (error + jsval) \<times> rl_state" where
  "makeRequest cfg apiKey endpointType clk http s =
     (if \<not> truthy apiKey \<or> strict_eq apiKey (JStr ''your_api_key_here'')
      then (Inl InvalidApiKeyConfigured, s)
      else
        let (limitCheck, s1) =
              (if endpointType \<noteq> ''normal'' then canCallEndpoint cfg (atCheck clk) endpointType s
               else (Allowed, s))
        in case limitCheck of
             Denied w r \<Rightarrow> (Inl (RateLimitExceeded endpointType w), s1)
           | Allowed \<Rightarrow>
               (let s2 = waitForNextCall cfg (atEnter clk) (atResume clk) s1 in
                case http of
                  HttpFail st \<Rightarrow> (Inl (rethrow st), s2)
                | HttpOk data \<Rightarrow>
                    (let s3 = (if endpointType \<noteq> ''normal''
                               then recordCall (atRecord clk) endpointType s2 else s2)
                     in (validateResponse data, s3))))"

text \<open>
  The second variant of the repository's \<^verbatim>\<open>ApiService\<close>: no check of the API
  key, the upstream error message is thrown as it is, and the \<^verbatim>\<open>catch\<close> block
  rethrows every error unchanged.
\<close>

definition validateResponse_plain :: "jsval \<Rightarrow> error + jsval" where
  "validateResponse_plain data =
     (if \<not> truthy data then Inl EmptyResponse
      else case getProp data ''status'' of
        Inl e \<Rightarrow> Inl e
      | Inr st \<Rightarrow>
          if strict_eq st (JBool False) then
            (case getProp data ''error'' of
               Inl e \<Rightarrow> Inl e
             | Inr er \<Rightarrow> Inl (ApiError (js_or er (JStr ''API returned error status''))))
          else Inr data)"

definition makeRequest_plain ::
  "rl_config \<Rightarrow> string \<Rightarrow> request_clock \<Rightarrow> http_result \<Rightarrow> rl_state
     \<Rightarrow> (error + jsval) \<times> rl_state" where
  "makeRequest_plain cfg endpointType clk http s =
     (let (limitCheck, s1) =
            (if endpointType \<noteq> ''normal'' then canCallEndpoint cfg (atCheck clk) endpointType s
             else (Allowed, s))
      in case limitCheck of
           Denied w r \<Rightarrow> (Inl (RateLimitExceeded endpointType w), s1)
         | Allowed \<Rightarrow>
             (let s2 = waitForNextCall cfg (atEnter clk) (atResume clk) s1 in
              case http of
                HttpFail st \<Rightarrow> (Inl (HttpFailure st), s2)
              | HttpOk data \<Rightarrow>
                  (let s3 = (if endpointType \<noteq> ''normal''
                             then recordCall (atRecord clk) endpointType s2 else s2)
                   in (validateResponse_plain data, s3))))"

text \<open>Whether the quota check of a request lets it through.\<close>

definition quotaAllows :: "rl_config \<Rightarrow> int \<Rightarrow> string \<Rightarrow> rl_state \<Rightarrow> bool" where
  "quotaAllows cfg now endpointType s = (fst (canCallEndpoint cfg now endpointType s) = Allowed)"

definition keyConfigured :: "jsval \<Rightarrow> bool" where
  "keyConfigured apiKey = (truthy apiKey \<and> \<not> strict_eq apiKey (JStr ''your_api_key_here''))"

section \<open>Throttle invocations that overlap\<close>

text \<open>
  Requests are issued from one event loop: an invocation of \<^verbatim>\<open>waitForNextCall\<close>
  runs without interruption up to its \<^verbatim>\<open>await\<close>, and again from there to its end,
  and other invocations may run in between (\<^verbatim>\<open>getOnuById\<close> starts its requests
  together, under \<^verbatim>\<open>Promise.all\<close>). An execution is a list of events. \<open>Enter i now
  now2\<close>: invocation \<open>i\<close> starts at clock reading \<open>now\<close>; if it need not sleep it
  stores the second reading \<open>now2\<close> at once and is complete, otherwise it sleeps.
  \<open>Resume i now\<close>: the sleep of invocation \<open>i\<close> is over (not before it is due), it
  stores the reading \<open>now\<close> and is complete. An event that cannot happen in the state
  makes the execution invalid (\<open>None\<close>).
\<close>

datatype throttle_event = Enter nat int int | Resume nat int

record throttle_run =
  limiter :: rl_state
  sleeping :: "(nat \<times> int) list"
  completed :: "(nat \<times> int) list"

fun throttle_step :: "rl_config \<Rightarrow> throttle_event \<Rightarrow> throttle_run \<Rightarrow> throttle_run option" where
  "throttle_step cfg (Enter i now now2) r =
     (case sleepTime cfg now (limiter r) of
        Some w \<Rightarrow> Some (r\<lparr>sleeping := (i, now + w) # sleeping r\<rparr>)
      | None \<Rightarrow>
          if now \<le> now2
          then Some (r\<lparr>limiter := stampLastCall now2 (limiter r),
                        completed := completed r @ [(i, now2)]\<rparr>)
          else None)"
| "throttle_step cfg (Resume i now) r =
     (case map_of (sleeping r) i of
        None \<Rightarrow> None
      | Some due \<Rightarrow>
          if due \<le> now
          then Some (r\<lparr>limiter := stampLastCall now (limiter r),
                        sleeping := filter (\<lambda>p. fst p \<noteq> i) (sleeping r),
                        completed := completed r @ [(i, now)]\<rparr>)
          else None)"

fun throttle_exec :: "rl_config \<Rightarrow> throttle_event list \<Rightarrow> throttle_run \<Rightarrow> throttle_run option" where
  "throttle_exec cfg [] r = Some r"
| "throttle_exec cfg (e # es) r =
     (case throttle_step cfg e r of None \<Rightarrow> None | Some r' \<Rightarrow> throttle_exec cfg es r')"

text \<open>Consecutive completion instants are at least \<open>d\<close> apart.\<close>

fun spaced :: "int \<Rightarrow> (nat \<times> int) list \<Rightarrow> bool" where
  "spaced d (x # y # rest) = (d \<le> snd y - snd x \<and> spaced d (y # rest))"
| "spaced d xs = True"

section \<open>Result cache\<close>

text \<open>
  Modelled from the spec: the keyed store behind \<^verbatim>\<open>CacheService\<close>, the class
  \<^verbatim>\<open>NodeCache\<close> of the package \<^verbatim>\<open>node-cache\<close>, which is not among the sources.
  The specification's words: \<^emph>\<open>key \<rightarrow> value \<rightarrow> expiry instant\<close>; \<^emph>\<open>set stores value with
  an expiry now + ttl; overwrites any prior entry for the same key\<close>; \<^emph>\<open>get returns the
  stored value if present and unexpired, else an explicit absence signal\<close>; TTLs are
  configured in seconds. An entry is expired when its expiry instant lies before the
  clock reading; absence is \<^verbatim>\<open>undefined\<close>. The flag \<open>fault\<close> stands for a storage
  fault, the store throwing instead of answering.
\<close>

type_synonym node_cache = "string \<rightharpoonup> (jsval \<times> int)"

definition nc_get :: "bool \<Rightarrow> int \<Rightarrow> string \<Rightarrow> node_cache \<Rightarrow> error + jsval" where
  "nc_get fault now key m =
     (if fault then Inl StorageFault
      else case m key of
        None \<Rightarrow> Inr JUndefined
      | Some (v, expiry) \<Rightarrow> if expiry < now then Inr JUndefined else Inr v)"

definition nc_set :: "bool \<Rightarrow> int \<Rightarrow> string \<Rightarrow> jsval \<Rightarrow> int \<Rightarrow> node_cache \<Rightarrow> error + node_cache" where
  "nc_set fault now key v ttl m =
     (if fault then Inl StorageFault else Inr (m(key \<mapsto> (v, now + ttl * 1000))))"

definition nc_del :: "bool \<Rightarrow> string \<Rightarrow> node_cache \<Rightarrow> error + node_cache" where
  "nc_del fault key m = (if fault then Inl StorageFault else Inr (m(key := None)))"

text \<open>
  \<^verbatim>\<open>class CacheService\<close> (\<^verbatim>\<open>get\<close>, \<^verbatim>\<open>set\<close>, \<^verbatim>\<open>del\<close>). The configured TTLs are
  \<^verbatim>\<open>config.ttl\<close>; the \<^verbatim>\<open>ttl\<close> argument of \<^verbatim>\<open>set\<close> is a number of seconds or
  \<^verbatim>\<open>null\<close> (\<open>None\<close>).
\<close>

record cache_ttl =
  ttl_onuDetails :: int
  ttl_onuStatus :: int
  ttl_gps :: int

definition CacheService_get :: "bool \<Rightarrow> int \<Rightarrow> string \<Rightarrow> node_cache \<Rightarrow> jsval" where
  "CacheService_get fault now key m =
     (case nc_get fault now key m of
        Inr v \<Rightarrow> if truthy v then v else JNull
      | Inl e \<Rightarrow> JNull)"

definition CacheService_set ::
  "bool \<Rightarrow> cache_ttl \<Rightarrow> int \<Rightarrow> string \<Rightarrow> jsval \<Rightarrow> int option \<Rightarrow> node_cache \<Rightarrow> bool \<times> node_cache" where
  "CacheService_set fault cfg now key v ttl m =
     (let actualTtl = (case ttl of None \<Rightarrow> ttl_onuStatus cfg
                       | Some t \<Rightarrow> if t \<noteq> 0 then t else ttl_onuStatus cfg)
      in case nc_set fault now key v actualTtl m of
           Inr m' \<Rightarrow> (True, m')
         | Inl e \<Rightarrow> (False, m))"

definition CacheService_del :: "bool \<Rightarrow> string \<Rightarrow> node_cache \<Rightarrow> bool \<times> node_cache" where
  "CacheService_del fault key m =
     (case nc_del fault key m of Inr m' \<Rightarrow> (True, m') | Inl e \<Rightarrow> (False, m))"

text \<open>Operations on the cache, each with its clock reading, run one after the other
  (no storage fault).\<close>

datatype cache_op = OpGet string | OpSet string jsval "int option" | OpDel string

fun opKey :: "cache_op \<Rightarrow> string" where
  "opKey (OpGet k) = k"
| "opKey (OpSet k v ttl) = k"
| "opKey (OpDel k) = k"

fun cache_step :: "cache_ttl \<Rightarrow> int \<times> cache_op \<Rightarrow> node_cache \<Rightarrow> node_cache" where
  "cache_step cfg (now, OpGet k) m = m"
| "cache_step cfg (now, OpSet k v ttl) m = snd (CacheService_set False cfg now k v ttl m)"
| "cache_step cfg (now, OpDel k) m = snd (CacheService_del False k m)"

fun cache_exec :: "cache_ttl \<Rightarrow> (int \<times> cache_op) list \<Rightarrow> node_cache \<Rightarrow> node_cache" where
  "cache_exec cfg [] m = m"
| "cache_exec cfg (x # xs) m = cache_exec cfg xs (cache_step cfg x m)"

section \<open>Status transition log\<close>

text \<open>
  \<^verbatim>\<open>this.statusHistory\<close> of \<^verbatim>\<open>OnuService\<close> and \<^verbatim>\<open>trackStatusChange(onu, newStatus,
  oldStatus)\<close>, the same in both variants of the service. The timestamp is the clock
  reading, already formatted. \<^verbatim>\<open>unshift\<close> puts the event at the head, \<^verbatim>\<open>pop\<close> removes
  the last element.
\<close>

record status_history =
  recentLos :: "jsval list"
  recentPowerFail :: "jsval list"

definition newStatusHistory :: status_history where
  "newStatusHistory = \<lparr>recentLos = [], recentPowerFail = []\<rparr>"

definition statusEvent :: "string \<Rightarrow> jsval \<Rightarrow> jsval \<Rightarrow> jsval \<Rightarrow> jsval" where
  "statusEvent timestamp onu newStatus oldStatus =
     JObj [(''unique_external_id'', propOf onu ''unique_external_id''),
           (''name'', js_or (propOf onu ''name'') (JStr ''Unknown'')),
           (''odb_name'', js_or (propOf onu ''odb_name'') (JStr ''Unknown'')),
           (''board'', propOf onu ''board''),
           (''port'', propOf onu ''port''),
           (''onu'', propOf onu ''onu''),
           (''old_status'', oldStatus),
           (''new_status'', newStatus),
           (''timestamp'', JStr timestamp)]"

text \<open>\<^verbatim>\<open>log.unshift(event); if (log.length > 50) log.pop();\<close>\<close>

definition unshiftCapped :: "jsval \<Rightarrow> jsval list \<Rightarrow> jsval list" where
  "unshiftCapped event entries =
     (let entries' = event # entries in if length entries' > 50 then butlast entries' else entries')"

definition trackStatusChange ::
  "string \<Rightarrow> jsval \<Rightarrow> jsval \<Rightarrow> jsval \<Rightarrow> status_history \<Rightarrow> error + status_history" where
  "trackStatusChange timestamp onu newStatus oldStatus h =
     (if strict_eq newStatus oldStatus then Inr h
      else if \<not> hasProps onu then Inl TypeError
      else
        let event = statusEvent timestamp onu newStatus oldStatus;
            h1 = (if strict_eq newStatus (JStr ''LOS'')
                  then h\<lparr>recentLos := unshiftCapped event (recentLos h)\<rparr> else h);
            h2 = (if strict_eq newStatus (JStr ''Power Fail'')
                  then h1\<lparr>recentPowerFail := unshiftCapped event (recentPowerFail h1)\<rparr> else h1)
        in Inr h2)"

text \<open>A sequence of calls \<open>(timestamp, onu, newStatus, oldStatus)\<close>, stopping at the
  first that throws.\<close>

fun trackStatusChanges ::
  "(string \<times> jsval \<times> jsval \<times> jsval) list \<Rightarrow> status_history \<Rightarrow> error + status_history" where
  "trackStatusChanges [] h = Inr h"
| "trackStatusChanges ((timestamp, onu, newStatus, oldStatus) # rest) h =
     (case trackStatusChange timestamp onu newStatus oldStatus h of
        Inl e \<Rightarrow> Inl e
      | Inr h' \<Rightarrow> trackStatusChanges rest h')"

text \<open>\<^verbatim>\<open>getStatusHistory\<close>: the first 20 entries of each log.\<close>

definition getStatusHistory :: "status_history \<Rightarrow> jsval" where
  "getStatusHistory h =
     JObj [(''recent_los'', JArr (take 20 (recentLos h))),
           (''recent_power_fail'', JArr (take 20 (recentPowerFail h)))]"

section \<open>Cache fingerprints\<close>

text \<open>
  A filter object: its own properties in insertion order. \<^verbatim>\<open>JSON.stringify\<close> writes
  the properties of an object in that order, each key quoted, leaving out a property
  whose value is \<^verbatim>\<open>undefined\<close>; in an array \<^verbatim>\<open>undefined\<close> is written
  \<^verbatim>\<open>null\<close>; a quoted string escapes the double quote, the backslash and the control
  characters; a number that is not finite is written \<^verbatim>\<open>null\<close>, and how a finite
  number is written is left to the argument \<open>numStr\<close>. The result \<open>None\<close> is
  \<^verbatim>\<open>undefined\<close>.
\<close>

type_synonym filters = "(string \<times> jsval) list"

definition hexDigit :: "nat \<Rightarrow> char" where
  "hexDigit n = ''0123456789abcdef'' ! (n mod 16)"

definition escapeChar :: "char \<Rightarrow> string" where
  "escapeChar c =
     (if c = CHR 0x22 then [CHR 0x5C, CHR 0x22]
      else if c = CHR 0x5C then [CHR 0x5C, CHR 0x5C]
      else if c = CHR 0x08 then [CHR 0x5C, CHR ''b'']
      else if c = CHR 0x0C then [CHR 0x5C, CHR ''f'']
      else if c = CHR 0x0A then [CHR 0x5C, CHR ''n'']
      else if c = CHR 0x0D then [CHR 0x5C, CHR ''r'']
      else if c = CHR 0x09 then [CHR 0x5C, CHR ''t'']
      else if (of_char c :: nat) < 32
      then [CHR 0x5C, CHR ''u'', CHR ''0'', CHR ''0'',
            hexDigit ((of_char c :: nat) div 16), hexDigit (of_char c :: nat)]
      else [c])"

definition quoteJSON :: "string \<Rightarrow> string" where
  "quoteJSON s = [CHR 0x22] @ concat (map escapeChar s) @ [CHR 0x22]"

fun joinComma :: "string list \<Rightarrow> string" where
  "joinComma [] = []"
| "joinComma [x] = x"
| "joinComma (x # y # rest) = x @ '','' @ joinComma (y # rest)"

fun JSON_stringify :: "(jsnum \<Rightarrow> string) \<Rightarrow> jsval \<Rightarrow> string option"
  and JSON_elements :: "(jsnum \<Rightarrow> string) \<Rightarrow> jsval list \<Rightarrow> string list"
  and JSON_properties :: "(jsnum \<Rightarrow> string) \<Rightarrow> (string \<times> jsval) list \<Rightarrow> string list" where
  "JSON_stringify numStr JUndefined = None"
| "JSON_stringify numStr JNull = Some ''null''"
| "JSON_stringify numStr (JBool b) = Some (if b then ''true'' else ''false'')"
| "JSON_stringify numStr (JNum n) = Some (case n of Fin r \<Rightarrow> numStr n | _ \<Rightarrow> ''null'')"
| "JSON_stringify numStr (JStr s) = Some (quoteJSON s)"
| "JSON_stringify numStr (JArr xs) = Some (''['' @ joinComma (JSON_elements numStr xs) @ '']'')"
| "JSON_stringify numStr (JObj ps) = Some (''{'' @ joinComma (JSON_properties numStr ps) @ ''}'')"
| "JSON_elements numStr [] = []"
| "JSON_elements numStr (x # xs) =
     (case JSON_stringify numStr x of None \<Rightarrow> ''null'' | Some t \<Rightarrow> t) # JSON_elements numStr xs"
| "JSON_properties numStr [] = []"
| "JSON_properties numStr ((k, v) # ps) =
     (case JSON_stringify numStr v of
        None \<Rightarrow> JSON_properties numStr ps
      | Some t \<Rightarrow> (quoteJSON k @ '':'' @ t) # JSON_properties numStr ps)"

text \<open>The cache keys of \<^verbatim>\<open>getAllOnusWithDetails\<close> and \<^verbatim>\<open>getOnusWithGps\<close>, template
  literals around \<^verbatim>\<open>JSON.stringify(filters)\<close>.\<close>

definition stringifyFilters :: "(jsnum \<Rightarrow> string) \<Rightarrow> filters \<Rightarrow> string" where
  "stringifyFilters numStr fs =
     (case JSON_stringify numStr (JObj fs) of Some t \<Rightarrow> t | None \<Rightarrow> ''undefined'')"

definition allOnusCacheKey :: "(jsnum \<Rightarrow> string) \<Rightarrow> filters \<Rightarrow> string" where
  "allOnusCacheKey numStr fs = ''all_onus_'' @ stringifyFilters numStr fs"

definition onusGpsCacheKey :: "(jsnum \<Rightarrow> string) \<Rightarrow> filters \<Rightarrow> string" where
  "onusGpsCacheKey numStr fs = ''onus_gps_'' @ stringifyFilters numStr fs"

text \<open>
  The routes (\<^verbatim>\<open>createApiRoutes\<close>) build the filter object from \<^verbatim>\<open>req.query\<close>, the
  object into which the framework has parsed the query string (a parameter given once
  is a string, a repeated parameter an array of its values in the order of the URL, a
  bracketed one a nested object). The filter object is a literal that reads the
  recognized names from \<^verbatim>\<open>req.query\<close> in a fixed order; then the properties whose
  value is undefined are deleted. \<open>query\<close> is the list of the properties of
  \<^verbatim>\<open>req.query\<close>.
\<close>

definition routeFilters :: "string list \<Rightarrow> (string \<times> jsval) list \<Rightarrow> filters" where
  "routeFilters names query =
     List.map_filter
       (\<lambda>k. if propOf (JObj query) k = JUndefined then None else Some (k, propOf (JObj query) k))
       names"

definition onusRouteNames :: "string list" where
  "onusRouteNames = [''olt_id'', ''board'', ''port'', ''zone'', ''odb'']"

definition gpsRouteNames :: "string list" where
  "gpsRouteNames = [''olt_id'', ''board'', ''port'', ''zone'']"

section \<open>Numbers in strings, values as strings\<close>

text \<open>
  \<^verbatim>\<open>parseFloat\<close>: white space is skipped, then the longest prefix that is a decimal
  literal (sign, digits, fraction, exponent) or \<^verbatim>\<open>Infinity\<close> is read; without one the
  result is NaN. The value is exact (no rounding to a double).
\<close>

definition isDigit :: "char \<Rightarrow> bool" where
  "isDigit c = (c \<in> set ''0123456789'')"

definition digitValue :: "char \<Rightarrow> nat" where
  "digitValue c = (of_char c :: nat) - 48"

definition digitsValue :: "string \<Rightarrow> nat" where
  "digitsValue ds = foldl (\<lambda>a c. 10 * a + digitValue c) 0 ds"

definition exponentOf :: "string \<Rightarrow> int" where
  "exponentOf s =
     (case s of
        [] \<Rightarrow> 0
      | c # r \<Rightarrow>
          if c = CHR ''e'' \<or> c = CHR ''E'' then
            (case r of
               [] \<Rightarrow> 0
             | x # y \<Rightarrow>
                 if x = CHR ''-'' then - int (digitsValue (takeWhile isDigit y))
                 else if x = CHR ''+'' then int (digitsValue (takeWhile isDigit y))
                 else int (digitsValue (takeWhile isDigit r)))
          else 0)"

definition parseFloatStr :: "string \<Rightarrow> jsnum" where
  "parseFloatStr s =
     (let s1 = dropWhile isWhiteSpace s;
          neg = (s1 \<noteq> [] \<and> hd s1 = CHR ''-'');
          s2 = (if s1 \<noteq> [] \<and> (hd s1 = CHR ''-'' \<or> hd s1 = CHR ''+'') then tl s1 else s1)
      in if prefix ''Infinity'' s2 then (if neg then NegInf else PosInf)
         else
           let intDigits = takeWhile isDigit s2;
               r1 = dropWhile isDigit s2;
               hasPoint = (r1 \<noteq> [] \<and> hd r1 = CHR ''.'');
               fracDigits = (if hasPoint then takeWhile isDigit (tl r1) else []);
               r2 = (if hasPoint then dropWhile isDigit (tl r1) else r1)
           in if intDigits = [] \<and> fracDigits = [] then NaN
              else
                let mantissa = of_nat (digitsValue (intDigits @ fracDigits)) / 10 ^ length fracDigits;
                    expo = exponentOf r2;
                    magnitude = (if 0 \<le> expo then mantissa * 10 ^ nat expo
                                 else mantissa / 10 ^ nat (- expo))
                in Fin (if neg then - magnitude else magnitude))"

text \<open>
  \<^verbatim>\<open>parseFloat(v)\<close> parses the string form of \<open>v\<close>. A number parses back to itself.
  An array's string form is its elements joined by commas, so only its first element
  can contribute; \<^verbatim>\<open>undefined\<close>, \<^verbatim>\<open>null\<close>, a boolean and an object have string
  forms that start no number.
\<close>

fun parseFloat :: "jsval \<Rightarrow> jsnum" where
  "parseFloat (JStr s) = parseFloatStr s"
| "parseFloat (JNum n) = n"
| "parseFloat (JArr []) = NaN"
| "parseFloat (JArr (x # xs)) = parseFloat x"
| "parseFloat v = NaN"

text \<open>
  The string form of a value, as a template literal or a property key takes it. How a
  number is written is left to the argument \<open>numStr\<close>.
\<close>

fun toStr :: "(jsnum \<Rightarrow> string) \<Rightarrow> jsval \<Rightarrow> string" where
  "toStr numStr (JStr s) = s"
| "toStr numStr JUndefined = ''undefined''"
| "toStr numStr JNull = ''null''"
| "toStr numStr (JBool b) = (if b then ''true'' else ''false'')"
| "toStr numStr (JNum n) = numStr n"
| "toStr numStr (JArr xs) =
     joinComma (map (\<lambda>x. if x = JNull \<or> x = JUndefined then [] else toStr numStr x) xs)"
| "toStr numStr (JObj ps) = ''[object Object]''"

text \<open>
  Object spread \<^verbatim>\<open>{...v, k1: v1, ...}\<close>: the own properties of \<open>v\<close>, then the
  listed ones written over them. A value that is not an object contributes nothing
  (the indexed elements of a string or an array, which no record of the upstream is,
  are left out).
\<close>

fun ownProps :: "jsval \<Rightarrow> (string \<times> jsval) list" where
  "ownProps (JObj ps) = ps"
| "ownProps v = []"

definition setProps :: "(string \<times> jsval) list \<Rightarrow> (string \<times> jsval) list \<Rightarrow> (string \<times> jsval) list" where
  "setProps kvs ps = foldl (\<lambda>acc (k, v). setProp k v acc) ps kvs"

text \<open>\<^verbatim>\<open>getStatusColor\<close>\<close>

definition getStatusColor :: "string \<Rightarrow> string" where
  "getStatusColor status =
     (case map_of [(''Online'', ''#28a745''), (''LOS'', ''#dc3545''),
                   (''Power Fail'', ''#ffc107''), (''Offline'', ''#6c757d'')] status of
        Some c \<Rightarrow> c
      | None \<Rightarrow> ''#6c757d'')"

section \<open>Aggregation service\<close>

text \<open>
  \<^verbatim>\<open>class OnuService\<close>. Its state is the cache it was given and the two transition
  logs. The requests it awaits are made by \<open>ApiService\<close>; what each of them yields,
  the returned \<^verbatim>\<open>response.data\<close> or the error thrown, is an argument. \<open>now0\<close> is
  the clock reading of the cache look-up at entry, \<open>now1\<close> that of the processing
  after the requests, \<open>stamp\<close> the formatted time of a transition event. The cache
  is used without storage faults.
\<close>

record onu_service =
  cache :: node_cache
  statusHistory :: status_history

text \<open>A loop over a list whose body may throw and may change the state: it stops at
  the first throw, keeping the state reached.\<close>

fun mapOnus :: "('a \<Rightarrow> 's \<Rightarrow> (error + 'b) \<times> 's) \<Rightarrow> 'a list \<Rightarrow> 's \<Rightarrow> (error + 'b list) \<times> 's" where
  "mapOnus f [] sv = (Inr [], sv)"
| "mapOnus f (x # xs) sv =
     (case f x sv of
        (Inl e, sv') \<Rightarrow> (Inl e, sv')
      | (Inr y, sv') \<Rightarrow>
          (case mapOnus f xs sv' of
             (Inl e, sv'') \<Rightarrow> (Inl e, sv'')
           | (Inr ys, sv'') \<Rightarrow> (Inr (y # ys), sv'')))"

fun mapE :: "('a \<Rightarrow> error + 'b) \<Rightarrow> 'a list \<Rightarrow> error + 'b list" where
  "mapE f [] = Inr []"
| "mapE f (x # xs) =
     (case f x of
        Inl e \<Rightarrow> Inl e
      | Inr y \<Rightarrow> (case mapE f xs of Inl e \<Rightarrow> Inl e | Inr ys \<Rightarrow> Inr (y # ys)))"

text \<open>
  The lines that look up the status last cached for the device, record a transition and
  cache the current status (\<^verbatim>\<open>oldStatusKey\<close>, \<^verbatim>\<open>oldStatus\<close>, \<^verbatim>\<open>trackStatusChange\<close>,
  \<^verbatim>\<open>cache.set\<close>).
\<close>

definition refreshStatus ::
  "(jsnum \<Rightarrow> string) \<Rightarrow> cache_ttl \<Rightarrow> int \<Rightarrow> string \<Rightarrow> jsval \<Rightarrow> string \<Rightarrow> onu_service
     \<Rightarrow> error + onu_service" where
  "refreshStatus numStr cfg now stamp onu status sv =
     (let oldStatusKey = ''status_'' @ toStr numStr (propOf onu ''unique_external_id'');
          oldStatus = CacheService_get False now oldStatusKey (cache sv)
      in case (if truthy oldStatus \<and> \<not> strict_eq oldStatus (JStr status)
               then trackStatusChange stamp onu (JStr status) oldStatus (statusHistory sv)
               else Inr (statusHistory sv)) of
           Inl e \<Rightarrow> Inl e
         | Inr h \<Rightarrow>
             Inr (sv\<lparr>statusHistory := h,
                     cache := snd (CacheService_set False cfg now oldStatusKey (JStr status)
                                     (Some (ttl_onuStatus cfg)) (cache sv))\<rparr>))"

subsection \<open>Devices with a location: the variant that filters\<close>

text \<open>
  \<^verbatim>\<open>getOnusWithGps\<close> of the service variant that reads everything from
  \<^verbatim>\<open>get_all_onus_details\<close>. The filter: \<^verbatim>\<open>lat\<close> and \<^verbatim>\<open>lng\<close> are a parsed
  number or \<^verbatim>\<open>null\<close> (\<open>None\<close>), and the device is kept when
  \<^verbatim>\<open>lat && lng && !isNaN(lat) && !isNaN(lng) && lat !== 0 && lng !== 0\<close> is truthy.
\<close>

definition coordinate :: "jsval \<Rightarrow> jsnum option" where
  "coordinate v = (if truthy v then Some (parseFloat v) else None)"

definition coordTruthy :: "jsnum option \<Rightarrow> bool" where
  "coordTruthy c = (case c of None \<Rightarrow> False | Some n \<Rightarrow> truthy (JNum n))"

definition coordIsNaN :: "jsnum option \<Rightarrow> bool" where
  "coordIsNaN c = (c = Some NaN)"

definition hasValidGps :: "jsval \<Rightarrow> bool" where
  "hasValidGps onu =
     (let lat = coordinate (propOf onu ''latitude'');
          lng = coordinate (propOf onu ''longitude'')
      in coordTruthy lat \<and> coordTruthy lng \<and> \<not> coordIsNaN lat \<and> \<not> coordIsNaN lng
         \<and> lat \<noteq> Some (Fin 0) \<and> lng \<noteq> Some (Fin 0))"

text \<open>The record returned for a kept device.\<close>

definition locatedRecord :: "jsval \<Rightarrow> string \<Rightarrow> jsval" where
  "locatedRecord onu status =
     JObj (setProps [(''status'', JStr status),
                     (''status_color'', JStr (getStatusColor status)),
                     (''raw_status'', propOf onu ''status''),
                     (''latitude'', JNum (parseFloat (propOf onu ''latitude''))),
                     (''longitude'', JNum (parseFloat (propOf onu ''longitude'')))]
             (ownProps onu))"

definition locatedOnu ::
  "(jsnum \<Rightarrow> string) \<Rightarrow> cache_ttl \<Rightarrow> int \<Rightarrow> string \<Rightarrow> jsval \<Rightarrow> onu_service
     \<Rightarrow> (error + jsval) \<times> onu_service" where
  "locatedOnu numStr cfg now stamp onu sv =
     (let rawStatus = propOf onu ''status'' in
      case determineOnuStatus_trim rawStatus of
        Inl e \<Rightarrow> (Inl e, sv)
      | Inr status \<Rightarrow>
          (case refreshStatus numStr cfg now stamp onu status sv of
             Inl e \<Rightarrow> (Inl e, sv)
           | Inr sv' \<Rightarrow> (Inr (locatedRecord onu status), sv')))"

definition getOnusWithGps_filtered ::
  "(jsnum \<Rightarrow> string) \<Rightarrow> cache_ttl \<Rightarrow> int \<Rightarrow> int \<Rightarrow> string \<Rightarrow> filters \<Rightarrow> error + jsval
     \<Rightarrow> onu_service \<Rightarrow> (error + jsval) \<times> onu_service" where
  "getOnusWithGps_filtered numStr cfg now0 now1 stamp fs detailsFetch sv =
     (let cacheKey = onusGpsCacheKey numStr fs;
          cached = CacheService_get False now0 cacheKey (cache sv)
      in if truthy cached then (Inr cached, sv)
         else case detailsFetch of
           Inl e \<Rightarrow> (Inl e, sv)
         | Inr detailsResponse \<Rightarrow>
             if \<not> hasProps detailsResponse then (Inl TypeError, sv)
             else if \<not> truthy (propOf detailsResponse ''status'')
                     \<or> \<not> truthy (propOf detailsResponse ''onus'')
             then (Inl (InvalidResponse ''get_all_onus_details''), sv)
             else
               (case propOf detailsResponse ''onus'' of
                  JArr onus \<Rightarrow>
                    if \<not> list_all hasProps onus then (Inl TypeError, sv)
                    else
                      (case mapOnus (locatedOnu numStr cfg now1 stamp) (filter hasValidGps onus) sv of
                         (Inl e, sv') \<Rightarrow> (Inl e, sv')
                       | (Inr onusWithGps, sv') \<Rightarrow>
                           (Inr (JArr onusWithGps),
                            sv'\<lparr>cache := snd (CacheService_set False cfg now1 cacheKey
                                                  (JArr onusWithGps) (Some (ttl_gps cfg)) (cache sv'))\<rparr>))
                | _ \<Rightarrow> (Inl TypeError, sv)))"

subsection \<open>Devices with a location: the variant that merges three responses\<close>

text \<open>
  \<^verbatim>\<open>getOnusWithGps\<close> of \<^verbatim>\<open>src/services/onuService.js\<close>. \<^verbatim>\<open>detailsMap\<close> and
  \<^verbatim>\<open>statusMap\<close> are objects used as dictionaries, here maps from the string form of
  the identifier (inherited properties of an object are not modelled).
\<close>

definition keyedBy :: "(jsnum \<Rightarrow> string) \<Rightarrow> (jsval \<Rightarrow> jsval) \<Rightarrow> jsval \<Rightarrow> error + (string \<rightharpoonup> jsval)" where
  "keyedBy numStr valueOf response =
     (if \<not> hasProps response then Inl TypeError
      else if truthy (propOf response ''status'') \<and> truthy (propOf response ''response'') then
        (case propOf response ''response'' of
           JArr items \<Rightarrow>
             if list_all hasProps items
             then Inr (foldl (\<lambda>m item. m(toStr numStr (propOf item ''unique_external_id'') \<mapsto> valueOf item))
                         Map.empty items)
             else Inl TypeError
         | _ \<Rightarrow> Inl TypeError)
      else Inr Map.empty)"

definition gpsOnuEntry ::
  "(jsnum \<Rightarrow> string) \<Rightarrow> (string \<rightharpoonup> jsval) \<Rightarrow> (string \<rightharpoonup> jsval) \<Rightarrow> jsval \<Rightarrow> error + jsval" where
  "gpsOnuEntry numStr detailsMap statusMap gpsOnu =
     (if \<not> hasProps gpsOnu then Inl TypeError
      else
        let key = toStr numStr (propOf gpsOnu ''unique_external_id'');
            details = js_or (case detailsMap key of Some d \<Rightarrow> d | None \<Rightarrow> JUndefined) (JObj []);
            rawStatus = (case statusMap key of Some r \<Rightarrow> r | None \<Rightarrow> JUndefined)
        in case determineOnuStatus rawStatus JNull of
             Inl e \<Rightarrow> Inl e
           | Inr status \<Rightarrow>
               Inr (JObj (setProps (ownProps details)
                      [(''unique_external_id'', propOf gpsOnu ''unique_external_id''),
                       (''latitude'', JNum (parseFloat (propOf gpsOnu ''latitude''))),
                       (''longitude'', JNum (parseFloat (propOf gpsOnu ''longitude''))),
                       (''status'', JStr status),
                       (''status_color'', JStr (getStatusColor status)),
                       (''raw_status'', rawStatus)])))"

definition getOnusWithGps ::
  "(jsnum \<Rightarrow> string) \<Rightarrow> cache_ttl \<Rightarrow> int \<Rightarrow> int \<Rightarrow> filters
     \<Rightarrow> error + jsval \<Rightarrow> error + jsval \<Rightarrow> error + jsval
     \<Rightarrow> onu_service \<Rightarrow> (error + jsval) \<times> onu_service" where
  "getOnusWithGps numStr cfg now0 now1 fs gpsFetch detailsFetch statusFetch sv =
     (let cacheKey = onusGpsCacheKey numStr fs;
          cached = CacheService_get False now0 cacheKey (cache sv)
      in if truthy cached then (Inr cached, sv)
         else case gpsFetch of
           Inl e \<Rightarrow> (Inl e, sv)
         | Inr gpsResponse \<Rightarrow>
             if \<not> hasProps gpsResponse then (Inl TypeError, sv)
             else if \<not> truthy (propOf gpsResponse ''status'') \<or> \<not> truthy (propOf gpsResponse ''onus'')
             then (Inl (InvalidResponse ''get_all_onus_gps_coordinates''), sv)
             else
               (case detailsFetch of
                  Inl e \<Rightarrow> (Inl e, sv)
                | Inr detailsResponse \<Rightarrow>
                    (case keyedBy numStr (\<lambda>onu. onu) detailsResponse of
                       Inl e \<Rightarrow> (Inl e, sv)
                     | Inr detailsMap \<Rightarrow>
                         (case statusFetch of
                            Inl e \<Rightarrow> (Inl e, sv)
                          | Inr statusResponse \<Rightarrow>
                              (case keyedBy numStr (\<lambda>item. propOf item ''onu_status'') statusResponse of
                                 Inl e \<Rightarrow> (Inl e, sv)
                               | Inr statusMap \<Rightarrow>
                                   (case propOf gpsResponse ''onus'' of
                                      JArr gpsOnus \<Rightarrow>
                                        (case mapE (gpsOnuEntry numStr detailsMap statusMap) gpsOnus of
                                           Inl e \<Rightarrow> (Inl e, sv)
                                         | Inr result \<Rightarrow>
                                             (Inr (JArr result),
                                              sv\<lparr>cache := snd (CacheService_set False cfg now1 cacheKey
                                                       (JArr result) (Some (ttl_gps cfg)) (cache sv))\<rparr>))
                                    | _ \<Rightarrow> (Inl TypeError, sv)))))))"

subsection \<open>One device by its identifier\<close>

text \<open>
  \<^verbatim>\<open>getOnuById\<close> of \<^verbatim>\<open>src/services/onuService.js\<close>: the detail, status and signal
  requests run under one \<^verbatim>\<open>Promise.all\<close>, which is rejected as soon as one of them
  is. (When more than one is rejected the model reports the error of the first in the
  order of the array; JavaScript reports the one rejected first in time.)
\<close>

definition getOnuById ::
  "cache_ttl \<Rightarrow> int \<Rightarrow> int \<Rightarrow> string \<Rightarrow> error + jsval \<Rightarrow> error + jsval \<Rightarrow> error + jsval
     \<Rightarrow> onu_service \<Rightarrow> (error + jsval) \<times> onu_service" where
  "getOnuById cfg now0 now1 externalId detailsFetch statusFetch signalFetch sv =
     (let cacheKey = ''onu_detail_'' @ externalId;
          cached = CacheService_get False now0 cacheKey (cache sv)
      in if truthy cached then (Inr cached, sv)
         else case detailsFetch of
           Inl e \<Rightarrow> (Inl e, sv)
         | Inr detailsResponse \<Rightarrow>
             (case statusFetch of
                Inl e \<Rightarrow> (Inl e, sv)
              | Inr statusResponse \<Rightarrow>
                  (case signalFetch of
                     Inl e \<Rightarrow> (Inl e, sv)
                   | Inr signalResponse \<Rightarrow>
                       if \<not> hasProps detailsResponse then (Inl TypeError, sv)
                       else if \<not> truthy (propOf detailsResponse ''status'')
                       then (Inl FailedToGetOnuDetails, sv)
                       else if \<not> hasProps statusResponse then (Inl TypeError, sv)
                       else
                         (let rawStatus = (if truthy (propOf statusResponse ''status'')
                                           then propOf statusResponse ''onu_status'' else JNull)
                          in case determineOnuStatus rawStatus JNull of
                               Inl e \<Rightarrow> (Inl e, sv)
                             | Inr status \<Rightarrow>
                                 if \<not> hasProps signalResponse then (Inl TypeError, sv)
                                 else
                                   (let result =
                                          JObj (setProps
                                            [(''status'', JStr status),
                                             (''status_color'', JStr (getStatusColor status)),
                                             (''raw_status'', rawStatus),
                                             (''signal'', if truthy (propOf signalResponse ''status'')
                                                          then signalResponse else JNull)]
                                            (ownProps (propOf detailsResponse ''onu_details'')))
                                    in (Inr result,
                                        sv\<lparr>cache := snd (CacheService_set False cfg now1 cacheKey result
                                                 (Some (ttl_onuStatus cfg)) (cache sv))\<rparr>))))))"

text \<open>
  \<^verbatim>\<open>getOnuById\<close> of the second variant: two requests, and a rejected signal request
  is replaced by \<^verbatim>\<open>{status: false}\<close> (\<^verbatim>\<open>.catch(() => ({ status: false }))\<close>).
\<close>

definition getOnuById_tolerant ::
  "cache_ttl \<Rightarrow> int \<Rightarrow> int \<Rightarrow> string \<Rightarrow> error + jsval \<Rightarrow> error + jsval
     \<Rightarrow> onu_service \<Rightarrow> (error + jsval) \<times> onu_service" where
  "getOnuById_tolerant cfg now0 now1 externalId detailsFetch signalFetch sv =
     (let cacheKey = ''onu_detail_'' @ externalId;
          cached = CacheService_get False now0 cacheKey (cache sv)
      in if truthy cached then (Inr cached, sv)
         else case detailsFetch of
           Inl e \<Rightarrow> (Inl e, sv)
         | Inr detailsResponse \<Rightarrow>
             (let signalResponse = (case signalFetch of
                                      Inl e \<Rightarrow> JObj [(''status'', JBool False)]
                                    | Inr g \<Rightarrow> g)
              in if \<not> hasProps detailsResponse then (Inl TypeError, sv)
                 else if \<not> truthy (propOf detailsResponse ''status'')
                 then (Inl FailedToGetOnuDetails, sv)
                 else
                   (let onu = propOf detailsResponse ''onu_details'' in
                    if \<not> hasProps onu then (Inl TypeError, sv)
                    else
                      (let rawStatus = propOf onu ''status'' in
                       case determineOnuStatus_trim rawStatus of
                         Inl e \<Rightarrow> (Inl e, sv)
                       | Inr status \<Rightarrow>
                           if \<not> hasProps signalResponse then (Inl TypeError, sv)
                           else
                             (let result =
                                    JObj (setProps
                                      [(''status'', JStr status),
                                       (''status_color'', JStr (getStatusColor status)),
                                       (''raw_status'', rawStatus),
                                       (''signal'', if truthy (propOf signalResponse ''status'')
                                                    then signalResponse else JNull)]
                                      (ownProps onu))
                              in (Inr result,
                                  sv\<lparr>cache := snd (CacheService_set False cfg now1 cacheKey result
                                           (Some (ttl_onuStatus cfg)) (cache sv))\<rparr>))))))"

subsection \<open>All devices with their details\<close>

text \<open>
  \<^verbatim>\<open>getAllOnusWithDetails\<close> of \<^verbatim>\<open>src/services/onuService.js\<close>: the details and
  the statuses come from two requests, and the status of a device is looked up by its
  identifier.
\<close>

definition detailedOnu ::
  "(jsnum \<Rightarrow> string) \<Rightarrow> cache_ttl \<Rightarrow> int \<Rightarrow> string \<Rightarrow> (string \<rightharpoonup> jsval) \<Rightarrow> jsval \<Rightarrow> onu_service
     \<Rightarrow> (error + jsval) \<times> onu_service" where
  "detailedOnu numStr cfg now stamp statusMap onu sv =
     (if \<not> hasProps onu then (Inl TypeError, sv)
      else
        let rawStatus = (case statusMap (toStr numStr (propOf onu ''unique_external_id'')) of
                           Some r \<Rightarrow> r
                         | None \<Rightarrow> JUndefined)
        in case determineOnuStatus rawStatus JNull of
             Inl e \<Rightarrow> (Inl e, sv)
           | Inr status \<Rightarrow>
               (case refreshStatus numStr cfg now stamp onu status sv of
                  Inl e \<Rightarrow> (Inl e, sv)
                | Inr sv' \<Rightarrow>
                    (Inr (JObj (setProps [(''status'', JStr status),
                                          (''status_color'', JStr (getStatusColor status)),
                                          (''raw_status'', rawStatus)]
                                  (ownProps onu))),
                     sv')))"

definition getAllOnusWithDetails ::
  "(jsnum \<Rightarrow> string) \<Rightarrow> cache_ttl \<Rightarrow> int \<Rightarrow> int \<Rightarrow> string \<Rightarrow> filters
     \<Rightarrow> error + jsval \<Rightarrow> error + jsval \<Rightarrow> onu_service \<Rightarrow> (error + jsval) \<times> onu_service" where
  "getAllOnusWithDetails numStr cfg now0 now1 stamp fs detailsFetch statusFetch sv =
     (let cacheKey = allOnusCacheKey numStr fs;
          cached = CacheService_get False now0 cacheKey (cache sv)
      in if truthy cached then (Inr cached, sv)
         else case detailsFetch of
           Inl e \<Rightarrow> (Inl e, sv)
         | Inr detailsResponse \<Rightarrow>
             if \<not> hasProps detailsResponse then (Inl TypeError, sv)
             else if \<not> truthy (propOf detailsResponse ''status'')
                     \<or> \<not> truthy (propOf detailsResponse ''response'')
             then (Inl (InvalidResponse ''get_all_onus_details''), sv)
             else
               (case statusFetch of
                  Inl e \<Rightarrow> (Inl e, sv)
                | Inr statusResponse \<Rightarrow>
                    (case keyedBy numStr (\<lambda>item. propOf item ''onu_status'') statusResponse of
                       Inl e \<Rightarrow> (Inl e, sv)
                     | Inr statusMap \<Rightarrow>
                         (case propOf detailsResponse ''response'' of
                            JArr onus \<Rightarrow>
                              (case mapOnus (detailedOnu numStr cfg now1 stamp statusMap) onus sv of
                                 (Inl e, sv') \<Rightarrow> (Inl e, sv')
                               | (Inr processedOnus, sv') \<Rightarrow>
                                   (Inr (JArr processedOnus),
                                    sv'\<lparr>cache := snd (CacheService_set False cfg now1 cacheKey
                                             (JArr processedOnus) (Some (ttl_onuDetails cfg))
                                             (cache sv'))\<rparr>))
                          | _ \<Rightarrow> (Inl TypeError, sv)))))"

text \<open>
  \<^verbatim>\<open>getAllOnusWithDetails\<close> of the second variant: one request, the status is a
  field of the device record, and the coordinates are parsed when they are truthy.
\<close>

definition coordinateOrNull :: "jsval \<Rightarrow> jsval" where
  "coordinateOrNull v = (if truthy v then JNum (parseFloat v) else JNull)"

definition detailedOnu_inline ::
  "(jsnum \<Rightarrow> string) \<Rightarrow> cache_ttl \<Rightarrow> int \<Rightarrow> string \<Rightarrow> jsval \<Rightarrow> onu_service
     \<Rightarrow> (error + jsval) \<times> onu_service" where
  "detailedOnu_inline numStr cfg now stamp onu sv =
     (if \<not> hasProps onu then (Inl TypeError, sv)
      else
        let rawStatus = propOf onu ''status'' in
        case determineOnuStatus_trim rawStatus of
          Inl e \<Rightarrow> (Inl e, sv)
        | Inr status \<Rightarrow>
            (case refreshStatus numStr cfg now stamp onu status sv of
               Inl e \<Rightarrow> (Inl e, sv)
             | Inr sv' \<Rightarrow>
                 (Inr (JObj (setProps [(''status'', JStr status),
                                       (''status_color'', JStr (getStatusColor status)),
                                       (''raw_status'', rawStatus),
                                       (''latitude'', coordinateOrNull (propOf onu ''latitude'')),
                                       (''longitude'', coordinateOrNull (propOf onu ''longitude''))]
                               (ownProps onu))),
                  sv')))"

definition getAllOnusWithDetails_inline ::
  "(jsnum \<Rightarrow> string) \<Rightarrow> cache_ttl \<Rightarrow> int \<Rightarrow> int \<Rightarrow> string \<Rightarrow> filters
     \<Rightarrow> error + jsval \<Rightarrow> onu_service \<Rightarrow> (error + jsval) \<times> onu_service" where
  "getAllOnusWithDetails_inline numStr cfg now0 now1 stamp fs detailsFetch sv =
     (let cacheKey = allOnusCacheKey numStr fs;
          cached = CacheService_get False now0 cacheKey (cache sv)
      in if truthy cached then (Inr cached, sv)
         else case detailsFetch of
           Inl e \<Rightarrow> (Inl e, sv)
         | Inr detailsResponse \<Rightarrow>
             if \<not> hasProps detailsResponse then (Inl TypeError, sv)
             else if \<not> truthy (propOf detailsResponse ''status'')
                     \<or> \<not> truthy (propOf detailsResponse ''onus'')
             then (Inl (InvalidResponse ''get_all_onus_details''), sv)
             else
               (case propOf detailsResponse ''onus'' of
                  JArr onus \<Rightarrow>
                    (case mapOnus (detailedOnu_inline numStr cfg now1 stamp) onus sv of
                       (Inl e, sv') \<Rightarrow> (Inl e, sv')
                     | (Inr processedOnus, sv') \<Rightarrow>
                         (Inr (JArr processedOnus),
                          sv'\<lparr>cache := snd (CacheService_set False cfg now1 cacheKey
                                   (JArr processedOnus) (Some (ttl_onuDetails cfg)) (cache sv'))\<rparr>))
                | _ \<Rightarrow> (Inl TypeError, sv)))"

section \<open>Status classification: results\<close>

lemma determineOnuStatus_string_or_null:
  "determineOnuStatus (rawStatus r) (rawStatus c) \<in> Inr ` statuses"
  by (cases r; cases c) (auto simp: determineOnuStatus_def statuses_def Let_def)

lemma determineOnuStatus_trim_string_or_null:
  "determineOnuStatus_trim (rawStatus r) \<in> Inr ` statuses"
  by (cases r) (auto simp: determineOnuStatus_trim_def statuses_def Let_def)

lemma determineOnuStatus_examples:
  "determineOnuStatus (JStr ''Online'') JNull = Inr ''Online''"
  "determineOnuStatus (JStr ''los-detected'') JNull = Inr ''LOS''"
  "determineOnuStatus (JStr ''power fail'') JNull = Inr ''Power Fail''"
  "determineOnuStatus JNull JNull = Inr ''Offline''"
  "determineOnuStatus JUndefined JNull = Inr ''Offline''"
  "determineOnuStatus (JStr ''garbage'') JNull = Inr ''Offline''"
  by (simp_all add: determineOnuStatus_def toLowerCase_def toLowerChar_def)

lemma determineOnuStatus_trim_examples:
  "determineOnuStatus_trim (JStr ''Online'') = Inr ''Online''"
  "determineOnuStatus_trim (JStr ''los-detected'') = Inr ''LOS''"
  "determineOnuStatus_trim (JStr ''power fail'') = Inr ''Power Fail''"
  "determineOnuStatus_trim JNull = Inr ''Offline''"
  "determineOnuStatus_trim JUndefined = Inr ''Offline''"
  "determineOnuStatus_trim (JStr ''garbage'') = Inr ''Offline''"
  by (simp_all add: determineOnuStatus_trim_def toLowerCase_def toLowerChar_def trim_def
      isWhiteSpace_def)

text \<open>
  C4. Classification is a total function from raw status strings (null or absent
  included) to the four status values: for every string, and for null and undefined,
  both variants return, without throwing, exactly one of Online, LOS, Power Fail,
  Offline (whatever string or null the fallback argument is); and the five inputs of
  the specification classify as it says. The result depends on the arguments only, the
  function reads no state.
\<close>

theorem determineOnuStatus_total:
  "determineOnuStatus (rawStatus r) (rawStatus c) \<in> Inr ` statuses
   \<and> determineOnuStatus JUndefined (rawStatus c) = Inr ''Offline''
   \<and> determineOnuStatus_trim (rawStatus r) \<in> Inr ` statuses
   \<and> determineOnuStatus_trim JUndefined = Inr ''Offline''
   \<and> determineOnuStatus (JStr ''Online'') JNull = Inr ''Online''
   \<and> determineOnuStatus (JStr ''los-detected'') JNull = Inr ''LOS''
   \<and> determineOnuStatus (JStr ''power fail'') JNull = Inr ''Power Fail''
   \<and> determineOnuStatus JNull JNull = Inr ''Offline''
   \<and> determineOnuStatus (JStr ''garbage'') JNull = Inr ''Offline''
   \<and> determineOnuStatus_trim (JStr ''Online'') = Inr ''Online''
   \<and> determineOnuStatus_trim (JStr ''los-detected'') = Inr ''LOS''
   \<and> determineOnuStatus_trim (JStr ''power fail'') = Inr ''Power Fail''
   \<and> determineOnuStatus_trim JNull = Inr ''Offline''
   \<and> determineOnuStatus_trim (JStr ''garbage'') = Inr ''Offline''"
  using determineOnuStatus_string_or_null [of r c] determineOnuStatus_trim_string_or_null [of r]
    determineOnuStatus_examples determineOnuStatus_trim_examples
  by (simp add: determineOnuStatus_def)

section \<open>Call gate: results\<close>

lemma callsOf_setCalls:
  "callsOf c (setCalls c ts s) = ts"
  by (simp add: callsOf_def setCalls_def)

lemma callsOf_recordCalls:
  "restricted c \<Longrightarrow> callsOf c (recordCalls ts c s) = callsOf c s @ ts"
  by (induction ts arbitrary: s) (simp_all add: recordCall_def callsOf_setCalls)

lemma ceilDiv_ceiling:
  "0 < b \<Longrightarrow> ceilDiv a b = \<lceil>real_of_int a / real_of_int b\<rceil>"
proof -
  have "\<lfloor>real_of_int (- a) / real_of_int b\<rfloor> = (- a) div b"
    by (rule floor_divide_of_int_eq)
  then have "\<lfloor>- (real_of_int a / real_of_int b)\<rfloor> = (- a) div b"
    by simp
  then show ?thesis
    unfolding ceilDiv_def ceiling_def by simp
qed

lemma pruneCalls_append:
  "pruneCalls now (xs @ ys) = pruneCalls now xs @ pruneCalls now ys"
  by (simp add: pruneCalls_def Let_def)

lemma pruneCalls_all_in:
  "\<forall>t\<in>set ts. now - hourMs < t \<Longrightarrow> pruneCalls now ts = ts"
  by (simp add: pruneCalls_def Let_def)

lemma pruneCalls_later_empty:
  "pruneCalls now ts = [] \<Longrightarrow> now \<le> now' \<Longrightarrow> pruneCalls now' ts = []"
  by (auto simp: pruneCalls_def Let_def filter_empty_conv)

lemma pruneCalls_idem_later:
  "now \<le> now' \<Longrightarrow> pruneCalls now' (pruneCalls now ts) = pruneCalls now' ts"
  by (induction ts) (auto simp: pruneCalls_def Let_def)

lemma canCallEndpoint_denied:
  assumes "restricted c" and "pruneCalls now (callsOf c s) = t0 # rest"
    and "limitOf cfg c \<le> int (length (t0 # rest))"
  shows "fst (canCallEndpoint cfg now c s) =
    Denied (Some (ceilDiv (t0 + hourMs - now) (60 * 1000))) (Some (t0 + hourMs))"
  using assms by (simp add: canCallEndpoint_def callsOf_setCalls Let_def)

lemma canCallEndpoint_allowed:
  assumes "int (length (pruneCalls now (callsOf c s))) < limitOf cfg c"
  shows "fst (canCallEndpoint cfg now c s) = Allowed"
  using assms by (simp add: canCallEndpoint_def callsOf_setCalls Let_def)

lemma canCallEndpoint_state:
  "restricted c \<Longrightarrow> callsOf c (snd (canCallEndpoint cfg now c s)) = pruneCalls now (callsOf c s)"
  by (auto simp add: canCallEndpoint_def callsOf_setCalls Let_def split: list.splits)

lemma pruneCalls_drops_oldest:
  assumes "ts \<noteq> []" "Min (set ts) + hourMs \<le> now'"
  shows "length (pruneCalls now' ts) < length ts"
proof -
  have "Min (set ts) \<in> set ts" using assms(1) by simp
  moreover have "\<not> (Min (set ts) > now' - hourMs)" using assms(2) by simp
  ultimately have "\<exists>x\<in>set ts. \<not> x > now' - hourMs" by blast
  then show ?thesis
    unfolding pruneCalls_def Let_def by (intro length_filter_less[where x="Min (set ts)"]) (use assms in auto)
qed

text \<open>
  C1. For a restricted endpoint class with configured limit \<open>N > 0\<close>: after \<open>N\<close>
  calls recorded at instants within the trailing 60 minutes of \<open>now\<close> (the clock
  not running backwards between them, and no earlier call left in the window),
  \<open>canCallEndpoint\<close> answers not-allowed, together with the number of whole minutes,
  rounded up, until the oldest of these instants leaves the window, and the instant at
  which it does. From the moment the oldest instant is 60 minutes old,
  \<open>canCallEndpoint\<close> answers allowed again, asked on the recorded state or on the
  state the first question left behind.
\<close>

theorem canCallEndpoint_quota:
  assumes r: "restricted c"
    and pos: "0 < limitOf cfg c"
    and len: "int (length ts) = limitOf cfg c"
    and srt: "sorted ts"
    and old: "pruneCalls now (callsOf c s) = []"
    and win: "\<forall>t\<in>set ts. now - hourMs < t"
  shows "fst (canCallEndpoint cfg now c (recordCalls ts c s)) =
           Denied (Some \<lceil>real_of_int (Min (set ts) + hourMs - now) / (60 * 1000)\<rceil>)
                  (Some (Min (set ts) + hourMs))
       \<and> (\<forall>now'. now \<le> now' \<and> Min (set ts) + hourMs \<le> now' \<longrightarrow>
            fst (canCallEndpoint cfg now' c (recordCalls ts c s)) = Allowed
          \<and> fst (canCallEndpoint cfg now' c (snd (canCallEndpoint cfg now c (recordCalls ts c s)))) = Allowed)"
proof -
  from pos len obtain t0 rest where ts: "ts = t0 # rest" by (cases ts) auto
  have hdmin: "Min (set ts) = t0" using srt ts
    by (simp add: Min_insert2 le_imp_less_or_eq)
  have pr: "pruneCalls now (callsOf c (recordCalls ts c s)) = ts"
    using r old win by (simp add: callsOf_recordCalls pruneCalls_append pruneCalls_all_in)
  have first: "fst (canCallEndpoint cfg now c (recordCalls ts c s)) =
      Denied (Some (ceilDiv (t0 + hourMs - now) (60 * 1000))) (Some (t0 + hourMs))"
    using canCallEndpoint_denied [OF r, of now "recordCalls ts c s" t0 rest cfg] pr ts len by simp
  have cd: "ceilDiv (t0 + hourMs - now) (60 * 1000) = \<lceil>real_of_int (t0 + hourMs - now) / (60 * 1000)\<rceil>"
    using ceilDiv_ceiling [of "60 * 1000" "t0 + hourMs - now"] by simp
  have later: "fst (canCallEndpoint cfg now' c (recordCalls ts c s)) = Allowed
     \<and> fst (canCallEndpoint cfg now' c (snd (canCallEndpoint cfg now c (recordCalls ts c s)))) = Allowed"
    if le: "now \<le> now'" and out: "Min (set ts) + hourMs \<le> now'" for now'
  proof -
    have "pruneCalls now' (callsOf c (recordCalls ts c s)) = pruneCalls now' ts"
      using r pruneCalls_later_empty [OF old le] by (simp add: callsOf_recordCalls pruneCalls_append)
    moreover have "length (pruneCalls now' ts) < length ts"
      using pruneCalls_drops_oldest [OF _ out] ts by simp
    ultimately have lt: "int (length (pruneCalls now' (callsOf c (recordCalls ts c s)))) < limitOf cfg c"
      using len by simp
    have "pruneCalls now' (callsOf c (snd (canCallEndpoint cfg now c (recordCalls ts c s))))
        = pruneCalls now' (callsOf c (recordCalls ts c s))"
      using r le by (simp add: canCallEndpoint_state pruneCalls_idem_later)
    with lt show ?thesis
      by (simp add: canCallEndpoint_allowed)
  qed
  show ?thesis using first cd hdmin later by simp
qed


theorem canCallEndpoint_quota_witness:
  "fst (canCallEndpoint \<lparr>apiDelay = 100, gpsLimit = 3, detailsLimit = 3\<rparr> 4000 ''gps''
          (recordCalls [1000, 2000, 3000] ''gps'' newRateLimiter))
     = Denied (Some 60) (Some 3601000)
   \<and> fst (canCallEndpoint \<lparr>apiDelay = 100, gpsLimit = 3, detailsLimit = 3\<rparr> 3601000 ''gps''
          (recordCalls [1000, 2000, 3000] ''gps'' newRateLimiter))
     = Allowed"
proof -
  let ?cfg = "\<lparr>apiDelay = 100, gpsLimit = 3, detailsLimit = 3\<rparr>"
  let ?ts = "[1000, 2000, 3000] :: int list"
  have h1: "restricted ''gps''"
    by (simp add: restricted_def)
  have h2: "0 < limitOf ?cfg ''gps''"
    by (simp add: limitOf_def)
  have h3: "int (length ?ts) = limitOf ?cfg ''gps''"
    by (simp add: limitOf_def)
  have h4: "sorted ?ts"
    by simp
  have h5: "pruneCalls 4000 (callsOf ''gps'' newRateLimiter) = []"
    by (simp add: pruneCalls_def callsOf_def newRateLimiter_def)
  have h6: "\<forall>t\<in>set ?ts. 4000 - hourMs < t"
    by (simp add: hourMs_def)
  have m: "Min (set ?ts) = 1000"
    by simp
  from canCallEndpoint_quota [OF h1 h2 h3 h4 h5 h6]
  have A: "fst (canCallEndpoint ?cfg 4000 ''gps'' (recordCalls ?ts ''gps'' newRateLimiter)) =
             Denied (Some \<lceil>real_of_int (Min (set ?ts) + hourMs - 4000) / (60 * 1000)\<rceil>)
               (Some (Min (set ?ts) + hourMs))"
    and B: "4000 \<le> (3601000::int) \<and> Min (set ?ts) + hourMs \<le> 3601000 \<longrightarrow>
             fst (canCallEndpoint ?cfg 3601000 ''gps'' (recordCalls ?ts ''gps'' newRateLimiter)) = Allowed"
    by blast+
  from A have "fst (canCallEndpoint ?cfg 4000 ''gps'' (recordCalls ?ts ''gps'' newRateLimiter)) =
             Denied (Some 60) (Some 3601000)"
    unfolding m by (simp add: hourMs_def)
  moreover from B have "fst (canCallEndpoint ?cfg 3601000 ''gps'' (recordCalls ?ts ''gps'' newRateLimiter)) = Allowed"
    unfolding m by (simp add: hourMs_def)
  ultimately show ?thesis by simp
qed

section \<open>Upstream requests: results\<close>

lemma restricted_not_normal: "restricted t \<Longrightarrow> t \<noteq> ''normal''"
  by (auto simp: restricted_def)

lemma callsOf_stampLastCall: "callsOf t (stampLastCall now s) = callsOf t s"
  by (simp add: callsOf_def stampLastCall_def)

lemma callsOf_waitForNextCall: "callsOf t (waitForNextCall cfg now now' s) = callsOf t s"
  by (simp add: waitForNextCall_def callsOf_stampLastCall)

lemma callsOf_recordCall:
  "restricted t \<Longrightarrow> callsOf t (recordCall now t s) = callsOf t s @ [now]"
  by (simp add: recordCall_def callsOf_setCalls)

lemma makeRequest_calls:
  assumes r: "restricted t"
  shows "callsOf t (snd (makeRequest cfg key t clk http s)) =
      (if \<not> keyConfigured key then callsOf t s
       else if quotaAllows cfg (atCheck clk) t s \<and> (\<exists>d. http = HttpOk d)
       then pruneCalls (atCheck clk) (callsOf t s) @ [atRecord clk]
       else pruneCalls (atCheck clk) (callsOf t s))"
proof (cases "keyConfigured key")
  case False
  then show ?thesis
    by (auto simp: makeRequest_def keyConfigured_def)
next
  case True
  obtain lc s1 where c: "canCallEndpoint cfg (atCheck clk) t s = (lc, s1)"
    by (cases "canCallEndpoint cfg (atCheck clk) t s")
  have s1: "callsOf t s1 = pruneCalls (atCheck clk) (callsOf t s)"
    using canCallEndpoint_state [OF r, of cfg "atCheck clk" s] c by simp
  show ?thesis
    using True r c s1 restricted_not_normal [OF r]
    by (cases lc; cases http)
       (simp_all add: makeRequest_def keyConfigured_def quotaAllows_def
          callsOf_waitForNextCall callsOf_recordCall)
qed

lemma makeRequest_plain_calls:
  assumes r: "restricted t"
  shows "callsOf t (snd (makeRequest_plain cfg t clk http s)) =
      (if quotaAllows cfg (atCheck clk) t s \<and> (\<exists>d. http = HttpOk d)
       then pruneCalls (atCheck clk) (callsOf t s) @ [atRecord clk]
       else pruneCalls (atCheck clk) (callsOf t s))"
proof -
  obtain lc s1 where c: "canCallEndpoint cfg (atCheck clk) t s = (lc, s1)"
    by (cases "canCallEndpoint cfg (atCheck clk) t s")
  have s1: "callsOf t s1 = pruneCalls (atCheck clk) (callsOf t s)"
    using canCallEndpoint_state [OF r, of cfg "atCheck clk" s] c by simp
  show ?thesis
    using r c s1 restricted_not_normal [OF r]
    by (cases lc; cases http)
       (simp_all add: makeRequest_plain_def quotaAllows_def
          callsOf_waitForNextCall callsOf_recordCall)
qed

lemma makeRequest_fails:
  "\<not> quotaAllows cfg (atCheck clk) t s \<or> http = HttpFail st \<Longrightarrow> t \<noteq> ''normal'' \<Longrightarrow>
    isl (fst (makeRequest cfg key t clk http s))"
  by (cases "canCallEndpoint cfg (atCheck clk) t s"; cases "fst (canCallEndpoint cfg (atCheck clk) t s)")
     (auto simp: makeRequest_def quotaAllows_def)

lemma makeRequest_plain_fails:
  "\<not> quotaAllows cfg (atCheck clk) t s \<or> http = HttpFail st \<Longrightarrow> t \<noteq> ''normal'' \<Longrightarrow>
    isl (fst (makeRequest_plain cfg t clk http s))"
  by (cases "canCallEndpoint cfg (atCheck clk) t s"; cases "fst (canCallEndpoint cfg (atCheck clk) t s)")
     (auto simp: makeRequest_plain_def quotaAllows_def)

lemma set_pruneCalls: "set (pruneCalls now ts) \<subseteq> set ts"
  by (auto simp: pruneCalls_def Let_def)

lemma strict_eq_false: "strict_eq v (JBool False) = (v = JBool False)"
proof (cases v)
  case (JNum n)
  then show ?thesis by (cases n) auto
qed auto

lemma validateResponse_fails_iff:
  "isl (validateResponse d) \<longleftrightarrow> \<not> truthy d \<or> propOf d ''status'' = JBool False"
proof (cases "truthy d")
  case False
  then show ?thesis by (simp add: validateResponse_def)
next
  case True
  then have h: "hasProps d" by (auto simp: hasProps_def)
  show ?thesis
    using True h
    by (auto simp: validateResponse_def getProp_def strict_eq_false Let_def split: jsval.splits)
qed

lemma validateResponse_plain_fails_iff:
  "isl (validateResponse_plain d) \<longleftrightarrow> \<not> truthy d \<or> propOf d ''status'' = JBool False"
proof (cases "truthy d")
  case False
  then show ?thesis by (simp add: validateResponse_plain_def)
next
  case True
  then have h: "hasProps d" by (auto simp: hasProps_def)
  show ?thesis
    using True h
    by (auto simp: validateResponse_plain_def getProp_def strict_eq_false)
qed

lemma makeRequest_response_result:
  assumes "quotaAllows cfg (atCheck clk) t s" and "keyConfigured key"
  shows "fst (makeRequest cfg key t clk (HttpOk d) s) = validateResponse d"
proof -
  obtain lc s1 where c: "canCallEndpoint cfg (atCheck clk) t s = (lc, s1)"
    by (cases "canCallEndpoint cfg (atCheck clk) t s")
  with assms(1) have lc: "lc = Allowed"
    by (simp add: quotaAllows_def)
  show ?thesis
    using assms(2) c lc by (simp add: makeRequest_def keyConfigured_def Let_def)
qed

lemma makeRequest_plain_response_result:
  assumes "quotaAllows cfg (atCheck clk) t s"
  shows "fst (makeRequest_plain cfg t clk (HttpOk d) s) = validateResponse_plain d"
proof -
  obtain lc s1 where c: "canCallEndpoint cfg (atCheck clk) t s = (lc, s1)"
    by (cases "canCallEndpoint cfg (atCheck clk) t s")
  with assms(1) have lc: "lc = Allowed"
    by (simp add: quotaAllows_def)
  show ?thesis
    using c lc by (simp add: makeRequest_plain_def Let_def)
qed

text \<open>
  C2 as the specification states it, that a failed call never consumes quota, fails:
  a request of the class \<^verbatim>\<open>gps\<close> whose response arrives and reports an upstream
  error (\<^verbatim>\<open>status: false\<close>) fails, in both variants, and its instant 1005 has been
  appended to the list, which held the one instant 500.
\<close>

theorem makeRequest_failed_request_recorded_counterexample:
  "makeRequest \<lparr>apiDelay = 100, gpsLimit = 3, detailsLimit = 3\<rparr> (JStr ''key'') ''gps''
       \<lparr>atCheck = 1000, atEnter = 1000, atResume = 1000, atRecord = 1005\<rparr>
       (HttpOk (JObj [(''status'', JBool False), (''error'', JStr ''no such zone'')]))
       \<lparr>lastCallTime = 500, callCounts_gps = [500], callCounts_details = []\<rparr>
     = (Inl (ApiError (JStr ''no such zone'')),
        \<lparr>lastCallTime = 1000, callCounts_gps = [500, 1005], callCounts_details = []\<rparr>)
   \<and> makeRequest_plain \<lparr>apiDelay = 100, gpsLimit = 3, detailsLimit = 3\<rparr> ''gps''
       \<lparr>atCheck = 1000, atEnter = 1000, atResume = 1000, atRecord = 1005\<rparr>
       (HttpOk (JObj [(''status'', JBool False), (''error'', JStr ''no such zone'')]))
       \<lparr>lastCallTime = 500, callCounts_gps = [500], callCounts_details = []\<rparr>
     = (Inl (ApiError (JStr ''no such zone'')),
        \<lparr>lastCallTime = 1000, callCounts_gps = [500, 1005], callCounts_details = []\<rparr>)"
  by (simp add: makeRequest_def makeRequest_plain_def canCallEndpoint_def restricted_def
      setCalls_def callsOf_def pruneCalls_def hourMs_def limitOf_def waitForNextCall_def
      stampLastCall_def recordCall_def validateResponse_def validateResponse_plain_def
      getProp_def hasProps_def js_or_def toLowerCase_def toLowerChar_def)

text \<open>
  C2, as the code has it. For a request of a restricted class, in both variants of
  \<open>makeRequest\<close>: when the quota check rejects, or the HTTP call throws, the request
  fails and the class's timestamp list afterwards is the old list pruned to the window
  (the old list itself when the API key check already failed), so it holds no new
  timestamp. When the check passes and the HTTP call returns a response, exactly the
  instant of recording is appended to the pruned list, and this before the response is
  validated: the request then returns what the validation returns, and the validation
  fails exactly on an empty body and on a \<^verbatim>\<open>status: false\<close> envelope, so a request
  failing there has consumed quota.
\<close>

theorem makeRequest_records_after_response:
  assumes r: "restricted t"
  shows "((\<not> quotaAllows cfg (atCheck clk) t s \<or> http = HttpFail st) \<longrightarrow>
            isl (fst (makeRequest cfg key t clk http s))
          \<and> callsOf t (snd (makeRequest cfg key t clk http s)) =
              (if keyConfigured key then pruneCalls (atCheck clk) (callsOf t s) else callsOf t s)
          \<and> set (callsOf t (snd (makeRequest cfg key t clk http s))) \<subseteq> set (callsOf t s)
          \<and> isl (fst (makeRequest_plain cfg t clk http s))
          \<and> callsOf t (snd (makeRequest_plain cfg t clk http s)) = pruneCalls (atCheck clk) (callsOf t s))
       \<and> ((quotaAllows cfg (atCheck clk) t s \<and> http = HttpOk d) \<longrightarrow>
            callsOf t (snd (makeRequest cfg key t clk http s)) =
              (if keyConfigured key then pruneCalls (atCheck clk) (callsOf t s) @ [atRecord clk]
               else callsOf t s)
          \<and> (keyConfigured key \<longrightarrow> fst (makeRequest cfg key t clk http s) = validateResponse d)
          \<and> callsOf t (snd (makeRequest_plain cfg t clk http s)) =
              pruneCalls (atCheck clk) (callsOf t s) @ [atRecord clk]
          \<and> fst (makeRequest_plain cfg t clk http s) = validateResponse_plain d)
       \<and> (isl (validateResponse d) \<longleftrightarrow> \<not> truthy d \<or> propOf d ''status'' = JBool False)
       \<and> (isl (validateResponse_plain d) \<longleftrightarrow> \<not> truthy d \<or> propOf d ''status'' = JBool False)"
proof -
  have A: "(\<not> quotaAllows cfg (atCheck clk) t s \<or> http = HttpFail st) \<longrightarrow>
            isl (fst (makeRequest cfg key t clk http s))
          \<and> callsOf t (snd (makeRequest cfg key t clk http s)) =
              (if keyConfigured key then pruneCalls (atCheck clk) (callsOf t s) else callsOf t s)
          \<and> set (callsOf t (snd (makeRequest cfg key t clk http s))) \<subseteq> set (callsOf t s)
          \<and> isl (fst (makeRequest_plain cfg t clk http s))
          \<and> callsOf t (snd (makeRequest_plain cfg t clk http s)) = pruneCalls (atCheck clk) (callsOf t s)"
    using makeRequest_calls [OF r, of cfg key clk http s] makeRequest_plain_calls [OF r, of cfg clk http s]
      makeRequest_fails [of cfg clk t s http st key] makeRequest_plain_fails [of cfg clk t s http st]
      restricted_not_normal [OF r] set_pruneCalls [of "atCheck clk" "callsOf t s"]
    by auto
  have B: "(quotaAllows cfg (atCheck clk) t s \<and> http = HttpOk d) \<longrightarrow>
            callsOf t (snd (makeRequest cfg key t clk http s)) =
              (if keyConfigured key then pruneCalls (atCheck clk) (callsOf t s) @ [atRecord clk]
               else callsOf t s)
          \<and> (keyConfigured key \<longrightarrow> fst (makeRequest cfg key t clk http s) = validateResponse d)
          \<and> callsOf t (snd (makeRequest_plain cfg t clk http s)) =
              pruneCalls (atCheck clk) (callsOf t s) @ [atRecord clk]
          \<and> fst (makeRequest_plain cfg t clk http s) = validateResponse_plain d"
    using makeRequest_calls [OF r, of cfg key clk http s] makeRequest_plain_calls [OF r, of cfg clk http s]
      makeRequest_response_result [of cfg clk t s key d]
      makeRequest_plain_response_result [of cfg clk t s d]
    by auto
  from A B validateResponse_fails_iff [of d] validateResponse_plain_fails_iff [of d]
  show ?thesis by blast
qed

text \<open>
  The theorem at a request of the class \<^verbatim>\<open>gps\<close> on a list holding one instant: with
  the HTTP call failing (status 500) the list is unchanged; with a \<^verbatim>\<open>status: false\<close>
  envelope arriving the request fails as well, and its instant is in the list.
\<close>

theorem makeRequest_records_after_response_witness:
  "callsOf ''gps'' (snd (makeRequest \<lparr>apiDelay = 100, gpsLimit = 3, detailsLimit = 3\<rparr>
       (JStr ''key'') ''gps'' \<lparr>atCheck = 1000, atEnter = 1000, atResume = 1000, atRecord = 1005\<rparr>
       (HttpFail (Some 500))
       \<lparr>lastCallTime = 500, callCounts_gps = [500], callCounts_details = []\<rparr>)) = [500]
   \<and> callsOf ''gps'' (snd (makeRequest \<lparr>apiDelay = 100, gpsLimit = 3, detailsLimit = 3\<rparr>
       (JStr ''key'') ''gps'' \<lparr>atCheck = 1000, atEnter = 1000, atResume = 1000, atRecord = 1005\<rparr>
       (HttpOk (JObj [(''status'', JBool False)]))
       \<lparr>lastCallTime = 500, callCounts_gps = [500], callCounts_details = []\<rparr>)) = [500, 1005]
   \<and> isl (fst (makeRequest \<lparr>apiDelay = 100, gpsLimit = 3, detailsLimit = 3\<rparr>
       (JStr ''key'') ''gps'' \<lparr>atCheck = 1000, atEnter = 1000, atResume = 1000, atRecord = 1005\<rparr>
       (HttpOk (JObj [(''status'', JBool False)]))
       \<lparr>lastCallTime = 500, callCounts_gps = [500], callCounts_details = []\<rparr>))"
proof -
  let ?cfg = "\<lparr>apiDelay = 100, gpsLimit = 3, detailsLimit = 3\<rparr>"
  let ?clk = "\<lparr>atCheck = 1000, atEnter = 1000, atResume = 1000, atRecord = 1005\<rparr>"
  let ?s = "\<lparr>lastCallTime = 500, callCounts_gps = [500], callCounts_details = []\<rparr>"
  let ?d = "JObj [(''status'', JBool False)]"
  have r: "restricted ''gps''"
    by (simp add: restricted_def)
  have q: "quotaAllows ?cfg (atCheck ?clk) ''gps'' ?s"
    by (simp add: quotaAllows_def canCallEndpoint_def restricted_def setCalls_def callsOf_def
        pruneCalls_def hourMs_def limitOf_def)
  have k: "keyConfigured (JStr ''key'')"
    by (simp add: keyConfigured_def)
  have p: "pruneCalls (atCheck ?clk) (callsOf ''gps'' ?s) = [500]"
    by (simp add: pruneCalls_def callsOf_def hourMs_def)
  have f: "propOf ?d ''status'' = JBool False"
    by simp
  from makeRequest_records_after_response
         [OF r, of ?cfg ?clk ?s "HttpFail (Some 500)" "Some 500" "JStr ''key''" ?d] k p
  have one: "callsOf ''gps'' (snd (makeRequest ?cfg (JStr ''key'') ''gps'' ?clk (HttpFail (Some 500)) ?s)) = [500]"
    by simp
  from makeRequest_records_after_response
         [OF r, of ?cfg ?clk ?s "HttpOk ?d" "Some 500" "JStr ''key''" ?d] q k p f
  have two: "callsOf ''gps'' (snd (makeRequest ?cfg (JStr ''key'') ''gps'' ?clk (HttpOk ?d) ?s)) = [500, 1005]"
    and three: "isl (fst (makeRequest ?cfg (JStr ''key'') ''gps'' ?clk (HttpOk ?d) ?s))"
    by simp_all
  from one two three show ?thesis by simp
qed

section \<open>Throttle: results\<close>

text \<open>
  Two invocations one after the other (the second entered when the first is complete):
  their completion instants are at least the configured spacing apart, provided the
  timer does not fire early and the clock does not run backwards.
\<close>

lemma waitForNextCall_sequential_spacing:
  assumes "now1' \<le> now2"
    and "timerHonoured cfg now2 now2' (waitForNextCall cfg now1 now1' s)"
  shows "apiDelay cfg \<le> lastCallTime (waitForNextCall cfg now2 now2' (waitForNextCall cfg now1 now1' s))
            - lastCallTime (waitForNextCall cfg now1 now1' s)"
  using assms
  by (auto simp: timerHonoured_def sleepTime_def waitForNextCall_def stampLastCall_def Let_def
      split: if_splits)

text \<open>
  C3. The three requests \<^verbatim>\<open>getOnuById\<close> starts together on an idle limiter
  (spacing 100 ms, clock at 5000): the first does not sleep and completes at 5000; the
  second and the third both find the last call 0 ms old, both sleep 100 ms, and both
  complete at 5100. Two consecutive completions coincide: the spacing is not kept.
\<close>

theorem waitForNextCall_overlap_unspaced:
  "throttle_exec \<lparr>apiDelay = 100, gpsLimit = 3, detailsLimit = 3\<rparr>
     [Enter 1 5000 5000, Enter 2 5000 5000, Enter 3 5000 5000, Resume 2 5100, Resume 3 5100]
     \<lparr>limiter = newRateLimiter, sleeping = [], completed = []\<rparr>
   = Some \<lparr>limiter = \<lparr>lastCallTime = 5100, callCounts_gps = [], callCounts_details = []\<rparr>,
           sleeping = [],
           completed = [(1, 5000), (2, 5100), (3, 5100)]\<rparr>
   \<and> \<not> spaced 100 [(1, 5000), (2, 5100), (3, 5100)]"
  by (simp add: sleepTime_def stampLastCall_def newRateLimiter_def)

section \<open>Result cache: results\<close>

lemma cache_step_other_key:
  "opKey (snd x) \<noteq> k \<Longrightarrow> cache_step cfg x m k = m k"
  by (cases x; cases "snd x")
     (auto simp: CacheService_set_def CacheService_del_def nc_set_def nc_del_def Let_def)

lemma cache_exec_other_keys:
  "\<forall>x\<in>set xs. opKey (snd x) \<noteq> k \<Longrightarrow> cache_exec cfg xs m k = m k"
  by (induction xs arbitrary: m) (simp_all add: cache_step_other_key)

lemma CacheService_get_entry:
  "CacheService_get False now k m =
     (case m k of None \<Rightarrow> JNull
      | Some (v, expiry) \<Rightarrow> if expiry < now \<or> \<not> truthy v then JNull else v)"
  by (auto simp: CacheService_get_def nc_get_def split: option.splits)

lemma CacheService_set_entry:
  "0 < ttl \<Longrightarrow> snd (CacheService_set False cfg now k v (Some ttl) m) k = Some (v, now + ttl * 1000)"
  by (simp add: CacheService_set_def nc_set_def)

text \<open>
  C5, as the code has it. For every key \<open>k\<close>, every truthy value \<open>v\<close> and every
  \<open>ttl > 0\<close> (no storage fault): a \<open>get\<close> of \<open>k\<close> at the instant of the \<open>set\<close>,
  or at any instant before the TTL has elapsed, returns \<open>v\<close>, whatever was read,
  written or deleted under other keys in between; a \<open>get\<close> after the TTL has elapsed
  returns \<^verbatim>\<open>null\<close>, as it does when \<open>k\<close> was never set.
\<close>

theorem cache_get_after_set:
  assumes "0 < ttl" and "truthy v" and "\<forall>x\<in>set ops. opKey (snd x) \<noteq> k"
  shows "(t0 \<le> t1 \<and> t1 < t0 + ttl * 1000 \<longrightarrow>
            CacheService_get False t1 k
              (cache_exec cfg ops (snd (CacheService_set False cfg t0 k v (Some ttl) m))) = v)
       \<and> CacheService_get False t0 k (snd (CacheService_set False cfg t0 k v (Some ttl) m)) = v
       \<and> (t0 + ttl * 1000 < t1 \<longrightarrow>
            CacheService_get False t1 k
              (cache_exec cfg ops (snd (CacheService_set False cfg t0 k v (Some ttl) m))) = JNull
          \<and> CacheService_get False t1 k (cache_exec cfg ops (m(k := None))) = JNull)"
  using assms cache_exec_other_keys [of ops k cfg] cache_exec.simps(1) [of cfg]
  by (simp add: CacheService_get_entry CacheService_set_entry)

text \<open>The theorem at a stored status string, with a write and a delete under other keys
  in between: read within the TTL, and read after it.\<close>

theorem cache_get_after_set_witness:
  "CacheService_get False 5000 ''a''
     (cache_exec \<lparr>ttl_onuDetails = 3600, ttl_onuStatus = 60, ttl_gps = 3600\<rparr>
        [(2000, OpSet ''b'' (JStr ''x'') None), (3000, OpDel ''c'')]
        (snd (CacheService_set False \<lparr>ttl_onuDetails = 3600, ttl_onuStatus = 60, ttl_gps = 3600\<rparr>
                1000 ''a'' (JStr ''Online'') (Some 60) Map.empty)))
     = JStr ''Online''
   \<and> CacheService_get False 61001 ''a''
     (cache_exec \<lparr>ttl_onuDetails = 3600, ttl_onuStatus = 60, ttl_gps = 3600\<rparr>
        [(2000, OpSet ''b'' (JStr ''x'') None), (3000, OpDel ''c'')]
        (snd (CacheService_set False \<lparr>ttl_onuDetails = 3600, ttl_onuStatus = 60, ttl_gps = 3600\<rparr>
                1000 ''a'' (JStr ''Online'') (Some 60) Map.empty)))
     = JNull"
proof -
  let ?cfg = "\<lparr>ttl_onuDetails = 3600, ttl_onuStatus = 60, ttl_gps = 3600\<rparr>"
  let ?ops = "[(2000, OpSet ''b'' (JStr ''x'') None), (3000, OpDel ''c'')]"
  have h1: "(0::int) < 60" by simp
  have h2: "truthy (JStr ''Online'')" by simp
  have h3: "\<forall>x\<in>set ?ops. opKey (snd x) \<noteq> ''a''" by simp
  from cache_get_after_set [OF h1 h2 h3, of 1000 5000 ?cfg Map.empty]
  have "CacheService_get False 5000 ''a''
     (cache_exec ?cfg ?ops (snd (CacheService_set False ?cfg 1000 ''a'' (JStr ''Online'') (Some 60) Map.empty)))
     = JStr ''Online''"
    by simp
  moreover
  from cache_get_after_set [OF h1 h2 h3, of 1000 61001 ?cfg Map.empty]
  have "CacheService_get False 61001 ''a''
     (cache_exec ?cfg ?ops (snd (CacheService_set False ?cfg 1000 ''a'' (JStr ''Online'') (Some 60) Map.empty)))
     = JNull"
    by simp
  ultimately show ?thesis by simp
qed

text \<open>
  C5 as the specification states it, for every value \<open>v\<close>, fails: the number 0, stored
  with a TTL of 60 seconds and read back at once, reads as \<^verbatim>\<open>null\<close>.
\<close>

theorem cache_get_after_set_falsy_counterexample:
  "\<not> (\<forall>k v ttl. 0 < ttl \<longrightarrow>
        CacheService_get False 1000 k
          (snd (CacheService_set False \<lparr>ttl_onuDetails = 3600, ttl_onuStatus = 60, ttl_gps = 3600\<rparr>
                  1000 k v (Some ttl) Map.empty)) = v)"
proof
  assume a: "\<forall>k v ttl. 0 < ttl \<longrightarrow>
        CacheService_get False 1000 k
          (snd (CacheService_set False \<lparr>ttl_onuDetails = 3600, ttl_onuStatus = 60, ttl_gps = 3600\<rparr>
                  1000 k v (Some ttl) Map.empty)) = v"
  have "CacheService_get False 1000 ''k''
          (snd (CacheService_set False \<lparr>ttl_onuDetails = 3600, ttl_onuStatus = 60, ttl_gps = 3600\<rparr>
                  1000 ''k'' (JNum (Fin 0)) (Some 60) Map.empty)) = JNum (Fin 0)"
    using a [rule_format, of 60 "''k''" "JNum (Fin 0)"] by simp
  then show False
    by (simp add: CacheService_get_def CacheService_set_def nc_get_def nc_set_def)
qed

text \<open>
  C10. For every key, every \<open>ttl > 0\<close> and every falsy value \<open>v\<close> (in particular
  \<^verbatim>\<open>false\<close>, 0, the empty string and \<^verbatim>\<open>null\<close>): while the entry is present and
  unexpired (the store itself still answers \<open>v\<close>), \<open>CacheService.get\<close> returns
  \<^verbatim>\<open>null\<close>, which is also its answer for a key that is not in the store.
\<close>

theorem cache_get_falsy_is_miss:
  assumes "0 < ttl" and "\<not> truthy v" and "t0 \<le> t1" and "t1 \<le> t0 + ttl * 1000"
  shows "nc_get False t1 k (snd (CacheService_set False cfg t0 k v (Some ttl) m)) = Inr v
       \<and> CacheService_get False t1 k (snd (CacheService_set False cfg t0 k v (Some ttl) m)) = JNull
       \<and> CacheService_get False t1 k (m(k := None)) = JNull
       \<and> \<not> truthy (JBool False) \<and> \<not> truthy (JNum (Fin 0)) \<and> \<not> truthy (JStr '''') \<and> \<not> truthy JNull"
  using assms
  by (simp add: CacheService_get_entry CacheService_set_entry)
     (simp add: nc_get_def CacheService_set_def nc_set_def)

text \<open>The theorem at the stored value \<^verbatim>\<open>false\<close>.\<close>

theorem cache_get_falsy_is_miss_witness:
  "nc_get False 1000 ''k''
     (snd (CacheService_set False \<lparr>ttl_onuDetails = 3600, ttl_onuStatus = 60, ttl_gps = 3600\<rparr>
             1000 ''k'' (JBool False) (Some 60) Map.empty)) = Inr (JBool False)
   \<and> CacheService_get False 1000 ''k''
     (snd (CacheService_set False \<lparr>ttl_onuDetails = 3600, ttl_onuStatus = 60, ttl_gps = 3600\<rparr>
             1000 ''k'' (JBool False) (Some 60) Map.empty)) = JNull"
proof -
  have h1: "(0::int) < 60" by simp
  have h2: "\<not> truthy (JBool False)" by simp
  have h3: "(1000::int) \<le> 1000" by simp
  have h4: "(1000::int) \<le> 1000 + 60 * 1000" by simp
  from cache_get_falsy_is_miss [OF h1 h2 h3 h4] show ?thesis by blast
qed

section \<open>Status transition log: results\<close>

lemma unshiftCapped_take:
  "length entries \<le> 50 \<Longrightarrow> unshiftCapped event entries = take 50 (event # entries)"
proof (cases "length entries = 50")
  case True
  then have "butlast entries = take 49 entries"
    by (simp add: butlast_conv_take)
  with True show ?thesis
    by (cases entries) (auto simp add: unshiftCapped_def Let_def)
next
  case False
  assume "length entries \<le> 50"
  with False show ?thesis
    by (simp add: unshiftCapped_def Let_def)
qed

lemma length_unshiftCapped:
  "length entries \<le> 50 \<Longrightarrow> length (unshiftCapped event entries) \<le> 50"
  by (simp add: unshiftCapped_take)

lemma trackStatusChange_bounded:
  assumes "trackStatusChange ts onu newStatus oldStatus h = Inr h'"
    and "length (recentLos h) \<le> 50" and "length (recentPowerFail h) \<le> 50"
  shows "length (recentLos h') \<le> 50 \<and> length (recentPowerFail h') \<le> 50"
  using assms
  by (auto simp: trackStatusChange_def Let_def length_unshiftCapped split: if_splits)

lemma trackStatusChanges_bounded:
  assumes "trackStatusChanges calls h = Inr h'"
    and "length (recentLos h) \<le> 50" and "length (recentPowerFail h) \<le> 50"
  shows "length (recentLos h') \<le> 50 \<and> length (recentPowerFail h') \<le> 50"
  using assms
proof (induction calls arbitrary: h)
  case Nil
  then show ?case by simp
next
  case (Cons c calls)
  obtain ts onu n o' where c: "c = (ts, onu, n, o')"
    by (cases c) auto
  from Cons.prems(1) c obtain h1 where
    h1: "trackStatusChange ts onu n o' h = Inr h1" and rest: "trackStatusChanges calls h1 = Inr h'"
    by (auto split: sum.splits)
  from trackStatusChange_bounded [OF h1 Cons.prems(2,3)] Cons.IH [OF rest]
  show ?case by simp
qed

text \<open>Transitions into the LOS log only: the log holds the 50 most recent events,
  newest first.\<close>

lemma trackStatusChanges_los:
  assumes "\<forall>c\<in>set calls. hasProps (fst (snd c)) \<and> fst (snd (snd c)) = JStr ''LOS''
             \<and> \<not> strict_eq (JStr ''LOS'') (snd (snd (snd c)))"
    and "length (recentLos h) \<le> 50"
  shows "trackStatusChanges calls h =
    Inr (h\<lparr>recentLos := take 50 (rev (map (\<lambda>(ts, onu, n, o'). statusEvent ts onu n o') calls)
              @ recentLos h)\<rparr>)"
  using assms
proof (induction calls arbitrary: h)
  case Nil
  then show ?case by simp
next
  case (Cons c calls)
  obtain ts onu n o' where c: "c = (ts, onu, n, o')"
    by (cases c) auto
  let ?ev = "statusEvent ts onu n o'"
  let ?h1 = "h\<lparr>recentLos := take 50 (?ev # recentLos h)\<rparr>"
  from Cons.prems c have step: "trackStatusChange ts onu n o' h = Inr ?h1"
    by (simp add: trackStatusChange_def Let_def unshiftCapped_take)
  have "trackStatusChanges calls ?h1 =
    Inr (?h1\<lparr>recentLos := take 50 (rev (map (\<lambda>(ts, onu, n, o'). statusEvent ts onu n o') calls)
              @ recentLos ?h1)\<rparr>)"
    using Cons.prems by (intro Cons.IH) simp_all
  moreover have "take 50 (rev (map (\<lambda>(ts, onu, n, o'). statusEvent ts onu n o') calls)
              @ take 50 (?ev # recentLos h))
     = take 50 (rev (map (\<lambda>(ts, onu, n, o'). statusEvent ts onu n o') calls) @ ?ev # recentLos h)"
    by (simp add: take_Cons' min_def) 
  ultimately show ?case
    using step c by simp
qed


text \<open>Sixty transitions into the LOS log, from empty logs: 50 entries remain, the ten
  oldest are gone.\<close>

lemma sixty_los_transitions:
  assumes "\<forall>c\<in>set calls. hasProps (fst (snd c)) \<and> fst (snd (snd c)) = JStr ''LOS''
             \<and> \<not> strict_eq (JStr ''LOS'') (snd (snd (snd c)))"
    and "length calls = 60"
  shows "\<exists>h'. trackStatusChanges calls newStatusHistory = Inr h'
           \<and> length (recentLos h') = 50
           \<and> recentLos h' = rev (drop 10 (map (\<lambda>(ts, onu, n, o'). statusEvent ts onu n o') calls))"
proof -
  let ?evs = "map (\<lambda>(ts, onu, n, o'). statusEvent ts onu n o') calls"
  have "take 50 (rev ?evs) = rev (drop 10 ?evs)"
    using assms(2) by (simp add: take_rev)
  then show ?thesis
    using trackStatusChanges_los [OF assms(1), of newStatusHistory] assms(2)
    by (simp add: newStatusHistory_def)
qed

text \<open>
  C6. For a device record and prior status \<open>a\<close>, new status \<open>b\<close> (logs within their
  bound of 50): if \<open>b\<close> differs from \<open>a\<close> and is LOS, exactly one event, built from
  the device, \<open>b\<close> and \<open>a\<close>, is put at the head of the LOS log, the log is cut to its
  50 newest entries (the oldest is dropped when it held 50), and the Power Fail log is
  untouched; likewise with the logs exchanged when \<open>b\<close> is Power Fail; for any other
  \<open>b\<close>, and when \<open>b = a\<close>, both logs stay as they are. The call returns and leaves both
  logs within 50 entries, and so does every sequence of calls from the empty logs.
\<close>

theorem trackStatusChange_transition:
  assumes "hasProps onu" and "length (recentLos h) \<le> 50" and "length (recentPowerFail h) \<le> 50"
  shows "(a \<noteq> b \<and> b = ''LOS'' \<longrightarrow>
            trackStatusChange ts onu (JStr b) (JStr a) h =
              Inr (h\<lparr>recentLos := take 50 (statusEvent ts onu (JStr b) (JStr a) # recentLos h)\<rparr>))
       \<and> (a \<noteq> b \<and> b = ''Power Fail'' \<longrightarrow>
            trackStatusChange ts onu (JStr b) (JStr a) h =
              Inr (h\<lparr>recentPowerFail :=
                      take 50 (statusEvent ts onu (JStr b) (JStr a) # recentPowerFail h)\<rparr>))
       \<and> (a \<noteq> b \<and> b \<noteq> ''LOS'' \<and> b \<noteq> ''Power Fail'' \<longrightarrow>
            trackStatusChange ts onu (JStr b) (JStr a) h = Inr h)
       \<and> trackStatusChange ts onu (JStr a) (JStr a) h = Inr h
       \<and> (\<exists>h'. trackStatusChange ts onu (JStr b) (JStr a) h = Inr h'
             \<and> length (recentLos h') \<le> 50 \<and> length (recentPowerFail h') \<le> 50)
       \<and> (\<forall>calls h'. trackStatusChanges calls newStatusHistory = Inr h' \<longrightarrow>
             length (recentLos h') \<le> 50 \<and> length (recentPowerFail h') \<le> 50)"
proof -
  have inv: "length (recentLos h') \<le> 50 \<and> length (recentPowerFail h') \<le> 50"
    if "trackStatusChanges calls newStatusHistory = Inr h'" for calls h'
    using trackStatusChanges_bounded [OF that] by (simp add: newStatusHistory_def)
  have "\<exists>h'. trackStatusChange ts onu (JStr b) (JStr a) h = Inr h'"
    using assms(1) by (simp add: trackStatusChange_def Let_def)
  then obtain h' where h': "trackStatusChange ts onu (JStr b) (JStr a) h = Inr h'"
    by blast
  from trackStatusChange_bounded [OF h' assms(2,3)] h'
  have ex: "\<exists>h'. trackStatusChange ts onu (JStr b) (JStr a) h = Inr h'
             \<and> length (recentLos h') \<le> 50 \<and> length (recentPowerFail h') \<le> 50"
    by blast
  have steps: "(a \<noteq> b \<and> b = ''LOS'' \<longrightarrow>
            trackStatusChange ts onu (JStr b) (JStr a) h =
              Inr (h\<lparr>recentLos := take 50 (statusEvent ts onu (JStr b) (JStr a) # recentLos h)\<rparr>))
       \<and> (a \<noteq> b \<and> b = ''Power Fail'' \<longrightarrow>
            trackStatusChange ts onu (JStr b) (JStr a) h =
              Inr (h\<lparr>recentPowerFail :=
                      take 50 (statusEvent ts onu (JStr b) (JStr a) # recentPowerFail h)\<rparr>))
       \<and> (a \<noteq> b \<and> b \<noteq> ''LOS'' \<and> b \<noteq> ''Power Fail'' \<longrightarrow>
            trackStatusChange ts onu (JStr b) (JStr a) h = Inr h)
       \<and> trackStatusChange ts onu (JStr a) (JStr a) h = Inr h"
    using assms by (auto simp: trackStatusChange_def Let_def unshiftCapped_take)
  from steps ex inv show ?thesis by blast
qed

text \<open>The theorem at the first transition of a device, Online to LOS, on empty logs.\<close>

theorem trackStatusChange_transition_witness:
  "trackStatusChange ''2024-01-01T00:00:00.000Z''
      (JObj [(''unique_external_id'', JStr ''test1''), (''name'', JStr ''Test ONU'')])
      (JStr ''LOS'') (JStr ''Online'') newStatusHistory
   = Inr \<lparr>recentLos =
            [JObj [(''unique_external_id'', JStr ''test1''), (''name'', JStr ''Test ONU''),
                   (''odb_name'', JStr ''Unknown''), (''board'', JUndefined),
                   (''port'', JUndefined), (''onu'', JUndefined),
                   (''old_status'', JStr ''Online''), (''new_status'', JStr ''LOS''),
                   (''timestamp'', JStr ''2024-01-01T00:00:00.000Z'')]],
          recentPowerFail = []\<rparr>"
proof -
  let ?onu = "JObj [(''unique_external_id'', JStr ''test1''), (''name'', JStr ''Test ONU'')]"
  have h1: "hasProps ?onu" by (simp add: hasProps_def)
  have h2: "length (recentLos newStatusHistory) \<le> 50" by (simp add: newStatusHistory_def)
  have h3: "length (recentPowerFail newStatusHistory) \<le> 50" by (simp add: newStatusHistory_def)
  from trackStatusChange_transition [OF h1 h2 h3, of "''Online''" "''LOS''" "''2024-01-01T00:00:00.000Z''"]
  have "trackStatusChange ''2024-01-01T00:00:00.000Z'' ?onu (JStr ''LOS'') (JStr ''Online'') newStatusHistory
     = Inr (newStatusHistory\<lparr>recentLos :=
         take 50 (statusEvent ''2024-01-01T00:00:00.000Z'' ?onu (JStr ''LOS'') (JStr ''Online'')
                   # recentLos newStatusHistory)\<rparr>)"
    by simp
  then show ?thesis
    by (simp add: newStatusHistory_def statusEvent_def js_or_def)
qed

section \<open>Cache fingerprints: results\<close>

lemma routeFilters_same_reads:
  assumes "\<forall>k\<in>set names. propOf (JObj q1) k = propOf (JObj q2) k"
  shows "routeFilters names q1 = routeFilters names q2"
  using assms unfolding routeFilters_def
  by (induction names) simp_all

text \<open>Two objects with the same properties, listed in any order, read the same under
  every name.\<close>

lemma same_properties_same_reads:
  assumes "distinct (map fst q1)" and "distinct (map fst q2)" and "set q1 = set q2"
  shows "propOf (JObj q1) k = propOf (JObj q2) k"
proof -
  from assms have "map_of q1 = map_of q2"
    by (simp add: map_of_inject_set)
  then show ?thesis by simp
qed

lemma key_order_keys_differ:
  "allOnusCacheKey numStr [(''olt_id'', JStr ''1''), (''zone'', JStr ''A'')]
     \<noteq> allOnusCacheKey numStr [(''zone'', JStr ''A''), (''olt_id'', JStr ''1'')]"
  by (simp add: allOnusCacheKey_def stringifyFilters_def quoteJSON_def escapeChar_def)

lemma repeated_parameter_keys_differ:
  "allOnusCacheKey numStr (routeFilters onusRouteNames [(''zone'', JArr [JStr ''A'', JStr ''B''])])
     \<noteq> allOnusCacheKey numStr (routeFilters onusRouteNames [(''zone'', JArr [JStr ''B'', JStr ''A''])])"
  by (simp add: allOnusCacheKey_def stringifyFilters_def quoteJSON_def routeFilters_def
      onusRouteNames_def escapeChar_def)


text \<open>
  C9, as the code has it. Two requests whose parsed query objects read the same under
  every recognized name (whatever the order of their properties, and whatever other
  parameters they carry) reach the service as the same filter object, the routes
  listing the recognized names in their fixed order; the fingerprints of
  \<open>getAllOnusWithDetails\<close> and \<open>getOnusWithGps\<close> are then the same, a look-up under
  either reads the same cache entry, and the service (either variant) does the same for
  both requests. A repeated parameter is one array value in the order of the URL:
  \<^verbatim>\<open>?zone=A&zone=B\<close> and \<^verbatim>\<open>?zone=B&zone=A\<close> differ in that value and get different
  fingerprints. The service itself keeps the key order of the object it is given:
  \<^verbatim>\<open>{olt_id: '1', zone: 'A'}\<close> and \<^verbatim>\<open>{zone: 'A', olt_id: '1'}\<close> get different
  fingerprints.
\<close>

theorem routeFilters_fingerprint:
  assumes "\<forall>k\<in>set names. propOf (JObj q1) k = propOf (JObj q2) k"
  shows "routeFilters names q1 = routeFilters names q2
       \<and> allOnusCacheKey numStr (routeFilters names q1) = allOnusCacheKey numStr (routeFilters names q2)
       \<and> onusGpsCacheKey numStr (routeFilters names q1) = onusGpsCacheKey numStr (routeFilters names q2)
       \<and> CacheService_get False now (allOnusCacheKey numStr (routeFilters names q1)) m
           = CacheService_get False now (allOnusCacheKey numStr (routeFilters names q2)) m
       \<and> CacheService_get False now (onusGpsCacheKey numStr (routeFilters names q1)) m
           = CacheService_get False now (onusGpsCacheKey numStr (routeFilters names q2)) m
       \<and> getAllOnusWithDetails numStr cfg now0 now1 stamp (routeFilters names q1) d st sv
           = getAllOnusWithDetails numStr cfg now0 now1 stamp (routeFilters names q2) d st sv
       \<and> getAllOnusWithDetails_inline numStr cfg now0 now1 stamp (routeFilters names q1) d sv
           = getAllOnusWithDetails_inline numStr cfg now0 now1 stamp (routeFilters names q2) d sv
       \<and> getOnusWithGps numStr cfg now0 now1 (routeFilters names q1) g d st sv
           = getOnusWithGps numStr cfg now0 now1 (routeFilters names q2) g d st sv
       \<and> getOnusWithGps_filtered numStr cfg now0 now1 stamp (routeFilters names q1) d sv
           = getOnusWithGps_filtered numStr cfg now0 now1 stamp (routeFilters names q2) d sv
       \<and> allOnusCacheKey numStr (routeFilters onusRouteNames [(''zone'', JArr [JStr ''A'', JStr ''B''])])
           \<noteq> allOnusCacheKey numStr (routeFilters onusRouteNames [(''zone'', JArr [JStr ''B'', JStr ''A''])])
       \<and> allOnusCacheKey numStr [(''olt_id'', JStr ''1''), (''zone'', JStr ''A'')]
           \<noteq> allOnusCacheKey numStr [(''zone'', JStr ''A''), (''olt_id'', JStr ''1'')]"
proof -
  have "routeFilters names q1 = routeFilters names q2"
    using assms by (rule routeFilters_same_reads)
  then show ?thesis
    using key_order_keys_differ [of numStr] repeated_parameter_keys_differ [of numStr]
    by simp
qed

text \<open>
  The theorem at \<^verbatim>\<open>?olt_id=1&zone=A&zone=B&page=2\<close> and
  \<^verbatim>\<open>?zone=A&zone=B&olt_id=1\<close>: the same fingerprint, with the names in the order of
  the route.
\<close>

theorem routeFilters_fingerprint_witness:
  "allOnusCacheKey (\<lambda>n. [])
     (routeFilters onusRouteNames
        [(''olt_id'', JStr ''1''), (''zone'', JArr [JStr ''A'', JStr ''B'']), (''page'', JStr ''2'')])
     = allOnusCacheKey (\<lambda>n. [])
         (routeFilters onusRouteNames [(''zone'', JArr [JStr ''A'', JStr ''B'']), (''olt_id'', JStr ''1'')])
   \<and> allOnusCacheKey (\<lambda>n. [])
         (routeFilters onusRouteNames [(''zone'', JArr [JStr ''A'', JStr ''B'']), (''olt_id'', JStr ''1'')])
     = ''all_onus_{'' @ [CHR 0x22] @ ''olt_id'' @ [CHR 0x22] @ '':'' @ [CHR 0x22] @ ''1'' @ [CHR 0x22]
        @ '','' @ [CHR 0x22] @ ''zone'' @ [CHR 0x22] @ '':['' @ [CHR 0x22] @ ''A'' @ [CHR 0x22]
        @ '','' @ [CHR 0x22] @ ''B'' @ [CHR 0x22] @ '']}''"
proof -
  let ?q1 = "[(''olt_id'', JStr ''1''), (''zone'', JArr [JStr ''A'', JStr ''B'']), (''page'', JStr ''2'')]"
  let ?q2 = "[(''zone'', JArr [JStr ''A'', JStr ''B'']), (''olt_id'', JStr ''1'')]"
  have h: "\<forall>k\<in>set onusRouteNames. propOf (JObj ?q1) k = propOf (JObj ?q2) k"
    by (simp add: onusRouteNames_def)
  have A: "allOnusCacheKey (\<lambda>n. []) (routeFilters onusRouteNames ?q1)
         = allOnusCacheKey (\<lambda>n. []) (routeFilters onusRouteNames ?q2)"
    by (rule conjunct1 [OF conjunct2 [OF routeFilters_fingerprint [OF h]]])
  have B: "allOnusCacheKey (\<lambda>n. []) (routeFilters onusRouteNames ?q2)
     = ''all_onus_{'' @ [CHR 0x22] @ ''olt_id'' @ [CHR 0x22] @ '':'' @ [CHR 0x22] @ ''1'' @ [CHR 0x22]
        @ '','' @ [CHR 0x22] @ ''zone'' @ [CHR 0x22] @ '':['' @ [CHR 0x22] @ ''A'' @ [CHR 0x22]
        @ '','' @ [CHR 0x22] @ ''B'' @ [CHR 0x22] @ '']}''"
    by code_simp
  show ?thesis
    by (rule conjI [OF A B])
qed

text \<open>
  C9 as the specification states it, for the service itself, fails: two filter
  objects with the same two pairs in different key order get different fingerprints.
\<close>

theorem cacheKey_key_order_counterexample:
  "\<not> (\<forall>f g. distinct (map fst f) \<and> distinct (map fst g) \<and> set f = set g
          \<longrightarrow> allOnusCacheKey (\<lambda>n. []) f = allOnusCacheKey (\<lambda>n. []) g)"
proof
  assume a: "\<forall>f g. distinct (map fst f) \<and> distinct (map fst g) \<and> set f = set g
          \<longrightarrow> allOnusCacheKey (\<lambda>n. []) f = allOnusCacheKey (\<lambda>n. []) g"
  have d1: "distinct (map fst [(''olt_id'', JStr ''1''), (''zone'', JStr ''A'')])" by simp
  have d2: "distinct (map fst [(''zone'', JStr ''A''), (''olt_id'', JStr ''1'')])" by simp
  have e: "set [(''olt_id'', JStr ''1''), (''zone'', JStr ''A'')]
         = set [(''zone'', JStr ''A''), (''olt_id'', JStr ''1'')]"
    by auto
  have "allOnusCacheKey (\<lambda>n. []) [(''olt_id'', JStr ''1''), (''zone'', JStr ''A'')]
      = allOnusCacheKey (\<lambda>n. []) [(''zone'', JStr ''A''), (''olt_id'', JStr ''1'')]"
    by (rule a [rule_format, OF conjI [OF d1 conjI [OF d2 e]]])
  moreover have "allOnusCacheKey (\<lambda>n. []) [(''olt_id'', JStr ''1''), (''zone'', JStr ''A'')]
      \<noteq> allOnusCacheKey (\<lambda>n. []) [(''zone'', JStr ''A''), (''olt_id'', JStr ''1'')]"
    by (simp add: allOnusCacheKey_def stringifyFilters_def quoteJSON_def escapeChar_def)
  ultimately show False
    by blast
qed

text \<open>
  The service called twice with the same two filter pairs, first as
  \<^verbatim>\<open>{olt_id: '1', zone: 'A'}\<close>, then as \<^verbatim>\<open>{zone: 'A', olt_id: '1'}\<close>, the upstream
  refusing the second time: the first call fills the cache, the second does not find
  the entry and fails with the upstream's error; asked again in the first key order, it
  is answered from the cache.
\<close>

lemma getAllOnusWithDetails_key_order_miss:
  "fst (getAllOnusWithDetails (\<lambda>n. []) \<lparr>ttl_onuDetails = 3600, ttl_onuStatus = 60, ttl_gps = 3600\<rparr>
          3000 4000 ''2024-01-01T00:00:01.000Z'' [(''zone'', JStr ''A''), (''olt_id'', JStr ''1'')]
          (Inl (RateLimitExceeded ''details'' (Some 60))) (Inl (HttpFailure None))
          (snd (getAllOnusWithDetails (\<lambda>n. []) \<lparr>ttl_onuDetails = 3600, ttl_onuStatus = 60, ttl_gps = 3600\<rparr>
                  1000 2000 ''2024-01-01T00:00:00.000Z'' [(''olt_id'', JStr ''1''), (''zone'', JStr ''A'')]
                  (Inr (JObj [(''status'', JBool True),
                              (''response'', JArr [JObj [(''unique_external_id'', JStr ''onu1'')]])]))
                  (Inr (JObj [(''status'', JBool True),
                              (''response'', JArr [JObj [(''unique_external_id'', JStr ''onu1''),
                                                         (''onu_status'', JStr ''Online'')]])]))
                  \<lparr>cache = Map.empty, statusHistory = newStatusHistory\<rparr>)))
   = Inl (RateLimitExceeded ''details'' (Some 60))"
  "fst (getAllOnusWithDetails (\<lambda>n. []) \<lparr>ttl_onuDetails = 3600, ttl_onuStatus = 60, ttl_gps = 3600\<rparr>
          3000 4000 ''2024-01-01T00:00:01.000Z'' [(''olt_id'', JStr ''1''), (''zone'', JStr ''A'')]
          (Inl (RateLimitExceeded ''details'' (Some 60))) (Inl (HttpFailure None))
          (snd (getAllOnusWithDetails (\<lambda>n. []) \<lparr>ttl_onuDetails = 3600, ttl_onuStatus = 60, ttl_gps = 3600\<rparr>
                  1000 2000 ''2024-01-01T00:00:00.000Z'' [(''olt_id'', JStr ''1''), (''zone'', JStr ''A'')]
                  (Inr (JObj [(''status'', JBool True),
                              (''response'', JArr [JObj [(''unique_external_id'', JStr ''onu1'')]])]))
                  (Inr (JObj [(''status'', JBool True),
                              (''response'', JArr [JObj [(''unique_external_id'', JStr ''onu1''),
                                                         (''onu_status'', JStr ''Online'')]])]))
                  \<lparr>cache = Map.empty, statusHistory = newStatusHistory\<rparr>)))
   = Inr (JArr [JObj [(''unique_external_id'', JStr ''onu1''), (''status'', JStr ''Online''),
                      (''status_color'', JStr ''#28a745''), (''raw_status'', JStr ''Online'')]])"
  by code_simp+

section \<open>Location-aware listing: results\<close>

lemma map_of_setProp: "map_of (setProp k v ps) = (map_of ps)(k \<mapsto> v)"
  by (simp add: setProp_def update_conv')

lemma propOf_setProp:
  "propOf (JObj (setProp k v ps)) k' = (if k' = k then v else propOf (JObj ps) k')"
  by (simp add: map_of_setProp)

lemma mapOnus_locatedOnu_result:
  "mapOnus (locatedOnu numStr cfg now stamp) xs sv = (Inr ys, sv') \<Longrightarrow>
     list_all2 (\<lambda>onu y. \<exists>status. determineOnuStatus_trim (propOf onu ''status'') = Inr status
                      \<and> y = locatedRecord onu status) xs ys"
proof (induction xs arbitrary: sv ys)
  case Nil
  then show ?case by simp
next
  case (Cons x xs)
  from Cons.prems obtain y sv1 ys' where
    x: "locatedOnu numStr cfg now stamp x sv = (Inr y, sv1)"
    and rest: "mapOnus (locatedOnu numStr cfg now stamp) xs sv1 = (Inr ys', sv')"
    and ys: "ys = y # ys'"
    by (auto split: prod.splits sum.splits)
  from x have "\<exists>status. determineOnuStatus_trim (propOf x ''status'') = Inr status
                      \<and> y = locatedRecord x status"
    by (auto simp: locatedOnu_def Let_def split: sum.splits)
  with Cons.IH [OF rest] ys show ?case by simp
qed

lemma propOf_locatedRecord_id:
  "propOf (locatedRecord onu status) ''unique_external_id'' = propOf onu ''unique_external_id''"
  by (cases onu) (simp_all add: locatedRecord_def setProps_def map_of_setProp)

lemma hasValidGps_iff:
  "hasValidGps onu \<longleftrightarrow>
     truthy (propOf onu ''latitude'') \<and> truthy (propOf onu ''longitude'')
     \<and> parseFloat (propOf onu ''latitude'') \<noteq> NaN \<and> parseFloat (propOf onu ''latitude'') \<noteq> Fin 0
     \<and> parseFloat (propOf onu ''longitude'') \<noteq> NaN \<and> parseFloat (propOf onu ''longitude'') \<noteq> Fin 0"
proof -
  have t: "truthy (JNum n) \<longleftrightarrow> n \<noteq> NaN \<and> n \<noteq> Fin 0" for n
    by (cases n) auto
  show ?thesis
    by (auto simp: hasValidGps_def coordinate_def coordTruthy_def coordIsNaN_def Let_def t)
qed

lemma getOnusWithGps_filtered_listing:
  assumes "\<not> truthy (CacheService_get False now0 (onusGpsCacheKey numStr fs) (cache sv))"
    and "getOnusWithGps_filtered numStr cfg now0 now1 stamp fs (Inr response) sv = (Inr out, sv')"
  shows "\<exists>onus rs. propOf response ''onus'' = JArr onus \<and> out = JArr rs
           \<and> list_all2 (\<lambda>onu r. \<exists>status. determineOnuStatus_trim (propOf onu ''status'') = Inr status
                      \<and> r = locatedRecord onu status) (filter hasValidGps onus) rs
           \<and> map (\<lambda>r. propOf r ''unique_external_id'') rs
               = map (\<lambda>onu. propOf onu ''unique_external_id'') (filter hasValidGps onus)"
proof -
  from assms obtain onus where onus: "propOf response ''onus'' = JArr onus"
    by (cases "propOf response ''onus''")
       (auto simp: getOnusWithGps_filtered_def Let_def split: if_splits)
  from assms onus obtain rs where
    m: "mapOnus (locatedOnu numStr cfg now1 stamp) (filter hasValidGps onus) sv = (Inr rs, snd (mapOnus (locatedOnu numStr cfg now1 stamp) (filter hasValidGps onus) sv))"
    and out: "out = JArr rs"
    by (auto simp: getOnusWithGps_filtered_def Let_def split: if_splits prod.splits sum.splits)
  from mapOnus_locatedOnu_result [OF m]
  have l: "list_all2 (\<lambda>onu r. \<exists>status. determineOnuStatus_trim (propOf onu ''status'') = Inr status
                      \<and> r = locatedRecord onu status) (filter hasValidGps onus) rs" .
  then have "map (\<lambda>r. propOf r ''unique_external_id'') rs
               = map (\<lambda>onu. propOf onu ''unique_external_id'') (filter hasValidGps onus)"
    by (induction rule: list_all2_induct) (auto simp: propOf_locatedRecord_id)
  with onus out l show ?thesis by blast
qed


lemma hasValidGps_excludes:
  "\<not> truthy (propOf onu ''latitude'') \<Longrightarrow> \<not> hasValidGps onu"
  "\<not> truthy (propOf onu ''longitude'') \<Longrightarrow> \<not> hasValidGps onu"
  "parseFloat (propOf onu ''latitude'') = NaN \<Longrightarrow> \<not> hasValidGps onu"
  "parseFloat (propOf onu ''longitude'') = NaN \<Longrightarrow> \<not> hasValidGps onu"
  "parseFloat (propOf onu ''latitude'') = Fin 0 \<Longrightarrow> \<not> hasValidGps onu"
  "parseFloat (propOf onu ''longitude'') = Fin 0 \<Longrightarrow> \<not> hasValidGps onu"
  by (simp_all add: hasValidGps_iff)

lemma hasValidGps_examples:
  "\<not> hasValidGps (JObj [(''unique_external_id'', JStr ''onu1''),
                         (''latitude'', JStr ''0''), (''longitude'', JStr ''0'')])"
  "\<not> hasValidGps (JObj [(''unique_external_id'', JStr ''onu1''),
                         (''latitude'', JNum (Fin 0)), (''longitude'', JNum (Fin 0))])"
  "\<not> hasValidGps (JObj [(''unique_external_id'', JStr ''onu2''),
                         (''latitude'', JStr ''abc''), (''longitude'', JStr ''12'')])"
  "\<not> hasValidGps (JObj [(''unique_external_id'', JStr ''onu3''), (''latitude'', JStr ''-7.1'')])"
  "hasValidGps (JObj [(''unique_external_id'', JStr ''onu4''),
                       (''latitude'', JStr ''-7.1''), (''longitude'', JStr ''110.8'')])"
  "hasValidGps (JObj [(''unique_external_id'', JStr ''onu4''),
                       (''latitude'', JNum (Fin (- 71 / 10))), (''longitude'', JNum (Fin (1108 / 10)))])"
  by code_simp+

text \<open>
  The variant that filters, on an upstream result of four devices with the coordinates
  \<open>(0, 0)\<close>, \<open>(abc, 12)\<close>, \<open>(-7.1, missing)\<close> and \<open>(-7.1, 110.8)\<close>: only the
  last is listed.
\<close>

lemma getOnusWithGps_filtered_example:
  "fst (getOnusWithGps_filtered (\<lambda>n. []) \<lparr>ttl_onuDetails = 3600, ttl_onuStatus = 60, ttl_gps = 3600\<rparr>
          1000 2000 ''2024-01-01T00:00:00.000Z'' []
          (Inr (JObj [(''status'', JBool True),
                      (''onus'', JArr
                         [JObj [(''unique_external_id'', JStr ''onu1''),
                                (''latitude'', JStr ''0''), (''longitude'', JStr ''0'')],
                          JObj [(''unique_external_id'', JStr ''onu2''),
                                (''latitude'', JStr ''abc''), (''longitude'', JStr ''12'')],
                          JObj [(''unique_external_id'', JStr ''onu3''), (''latitude'', JStr ''-7.1'')],
                          JObj [(''unique_external_id'', JStr ''onu4''),
                                (''latitude'', JStr ''-7.1''), (''longitude'', JStr ''110.8'')]])]))
          \<lparr>cache = Map.empty, statusHistory = newStatusHistory\<rparr>)
   = Inr (JArr [JObj [(''unique_external_id'', JStr ''onu4''),
                      (''latitude'', JNum (Fin (- 71 / 10))),
                      (''longitude'', JNum (Fin (1108 / 10))),
                      (''status'', JStr ''Offline''),
                      (''status_color'', JStr ''#6c757d''),
                      (''raw_status'', JUndefined)]])"
  by code_simp

text \<open>
  C7. \<^verbatim>\<open>getOnusWithGps\<close> of \<^verbatim>\<open>src/services/onuService.js\<close> on the same four
  devices, as the GPS endpoint reports them: all four are listed, the device at
  \<open>(0, 0)\<close>, the one with a latitude that is no number and the one without a longitude
  included.
\<close>

theorem getOnusWithGps_lists_unlocated:
  "fst (getOnusWithGps (\<lambda>n. []) \<lparr>ttl_onuDetails = 3600, ttl_onuStatus = 60, ttl_gps = 3600\<rparr>
          1000 2000 []
          (Inr (JObj [(''status'', JBool True),
                      (''onus'', JArr
                         [JObj [(''unique_external_id'', JStr ''onu1''),
                                (''latitude'', JStr ''0''), (''longitude'', JStr ''0'')],
                          JObj [(''unique_external_id'', JStr ''onu2''),
                                (''latitude'', JStr ''abc''), (''longitude'', JStr ''12'')],
                          JObj [(''unique_external_id'', JStr ''onu3''), (''latitude'', JStr ''-7.1'')],
                          JObj [(''unique_external_id'', JStr ''onu4''),
                                (''latitude'', JStr ''-7.1''), (''longitude'', JStr ''110.8'')]])]))
          (Inr (JObj [(''status'', JBool True), (''response'', JArr [])]))
          (Inr (JObj [(''status'', JBool True), (''response'', JArr [])]))
          \<lparr>cache = Map.empty, statusHistory = newStatusHistory\<rparr>)
   = Inr (JArr [JObj [(''unique_external_id'', JStr ''onu1''),
                      (''latitude'', JNum (Fin 0)), (''longitude'', JNum (Fin 0)),
                      (''status'', JStr ''Offline''), (''status_color'', JStr ''#6c757d''),
                      (''raw_status'', JUndefined)],
                JObj [(''unique_external_id'', JStr ''onu2''),
                      (''latitude'', JNum NaN), (''longitude'', JNum (Fin 12)),
                      (''status'', JStr ''Offline''), (''status_color'', JStr ''#6c757d''),
                      (''raw_status'', JUndefined)],
                JObj [(''unique_external_id'', JStr ''onu3''),
                      (''latitude'', JNum (Fin (- 71 / 10))), (''longitude'', JNum NaN),
                      (''status'', JStr ''Offline''), (''status_color'', JStr ''#6c757d''),
                      (''raw_status'', JUndefined)],
                JObj [(''unique_external_id'', JStr ''onu4''),
                      (''latitude'', JNum (Fin (- 71 / 10))), (''longitude'', JNum (Fin (1108 / 10))),
                      (''status'', JStr ''Offline''), (''status_color'', JStr ''#6c757d''),
                      (''raw_status'', JUndefined)]])"
  by code_simp

text \<open>Read off the result: the list has four entries.\<close>

theorem getOnusWithGps_lists_unlocated_witness:
  "\<exists>rs. fst (getOnusWithGps (\<lambda>n. []) \<lparr>ttl_onuDetails = 3600, ttl_onuStatus = 60, ttl_gps = 3600\<rparr>
          1000 2000 []
          (Inr (JObj [(''status'', JBool True),
                      (''onus'', JArr
                         [JObj [(''unique_external_id'', JStr ''onu1''),
                                (''latitude'', JStr ''0''), (''longitude'', JStr ''0'')],
                          JObj [(''unique_external_id'', JStr ''onu2''),
                                (''latitude'', JStr ''abc''), (''longitude'', JStr ''12'')],
                          JObj [(''unique_external_id'', JStr ''onu3''), (''latitude'', JStr ''-7.1'')],
                          JObj [(''unique_external_id'', JStr ''onu4''),
                                (''latitude'', JStr ''-7.1''), (''longitude'', JStr ''110.8'')]])]))
          (Inr (JObj [(''status'', JBool True), (''response'', JArr [])]))
          (Inr (JObj [(''status'', JBool True), (''response'', JArr [])]))
          \<lparr>cache = Map.empty, statusHistory = newStatusHistory\<rparr>) = Inr (JArr rs)
        \<and> length rs = 4"
  unfolding getOnusWithGps_lists_unlocated by simp

section \<open>Transitions seen by the aggregation: results\<close>

text \<open>
  The caller's side of the transition log. When the cache holds, unexpired, a status
  \<open>a\<close> for the device and the status just computed is a different \<open>b\<close>, the
  look-up-and-track lines call \<open>trackStatusChange\<close> with \<open>b\<close> and \<open>a\<close>, and the
  cache then holds \<open>b\<close>; without a cached status, or with the same one, the logs stay
  as they are.
\<close>

lemma refreshStatus_tracks:
  assumes "cache sv (''status_'' @ toStr numStr (propOf onu ''unique_external_id'')) = Some (JStr a, expiry)"
    and "now \<le> expiry" and "a \<noteq> []" and "a \<noteq> b" and "hasProps onu"
    and "0 \<le> ttl_onuStatus cfg"
  shows "\<exists>h sv'. trackStatusChange stamp onu (JStr b) (JStr a) (statusHistory sv) = Inr h
           \<and> refreshStatus numStr cfg now stamp onu b sv = Inr sv'
           \<and> statusHistory sv' = h
           \<and> CacheService_get False now (''status_'' @ toStr numStr (propOf onu ''unique_external_id''))
                (cache sv') = (if b = [] then JNull else JStr b)"
proof -
  have old: "CacheService_get False now (''status_'' @ toStr numStr (propOf onu ''unique_external_id''))
               (cache sv) = JStr a"
    using assms(1-3) by (simp add: CacheService_get_entry)
  have "\<exists>h. trackStatusChange stamp onu (JStr b) (JStr a) (statusHistory sv) = Inr h"
    using assms(5) by (simp add: trackStatusChange_def Let_def)
  then obtain h where h: "trackStatusChange stamp onu (JStr b) (JStr a) (statusHistory sv) = Inr h"
    by blast
  show ?thesis
    using old h assms(3,4,6)
    by (simp add: refreshStatus_def Let_def CacheService_get_entry CacheService_set_def nc_set_def)
qed

lemma refreshStatus_untracked:
  assumes "CacheService_get False now (''status_'' @ toStr numStr (propOf onu ''unique_external_id''))
             (cache sv) \<in> {JNull, JStr b}"
  shows "\<exists>sv'. refreshStatus numStr cfg now stamp onu b sv = Inr sv'
           \<and> statusHistory sv' = statusHistory sv"
  using assms by (auto simp: refreshStatus_def Let_def)

section \<open>Look-up by identifier: results\<close>

text \<open>
  The variant that catches the signal request's rejection: when the detail request
  returned a success envelope with a device record whose status classifies, the look-up
  returns a record, and its \<open>signal\<close> field is \<^verbatim>\<open>null\<close> when the signal request was
  rejected.
\<close>

lemma getOnuById_tolerant_signal_failure:
  assumes "\<not> truthy (CacheService_get False now0 (''onu_detail_'' @ externalId) (cache sv))"
    and "hasProps d" and "truthy (propOf d ''status'')" and "hasProps (propOf d ''onu_details'')"
    and "determineOnuStatus_trim (propOf (propOf d ''onu_details'') ''status'') = Inr status"
  shows "\<exists>r. fst (getOnuById_tolerant cfg now0 now1 externalId (Inr d) (Inl e) sv) = Inr r
            \<and> propOf r ''signal'' = JNull"
  using assms
  by (simp add: getOnuById_tolerant_def Let_def hasProps_def setProps_def map_of_setProp)

lemma getOnuById_tolerant_example:
  "fst (getOnuById_tolerant \<lparr>ttl_onuDetails = 3600, ttl_onuStatus = 60, ttl_gps = 3600\<rparr> 1000 2000
          ''test-id''
          (Inr (JObj [(''status'', JBool True),
                      (''onu_details'', JObj [(''name'', JStr ''Test''), (''status'', JStr ''Online'')])]))
          (Inl (HttpFailure (Some 500)))
          \<lparr>cache = Map.empty, statusHistory = newStatusHistory\<rparr>)
   = Inr (JObj [(''name'', JStr ''Test''), (''status'', JStr ''Online''),
                (''status_color'', JStr ''#28a745''), (''raw_status'', JStr ''Online''),
                (''signal'', JNull)])"
  by code_simp

text \<open>
  In \<^verbatim>\<open>src/services/onuService.js\<close> a rejected signal request fails every look-up that
  is not answered from the cache.
\<close>

lemma getOnuById_signal_rejected:
  assumes "\<not> truthy (CacheService_get False now0 (''onu_detail_'' @ externalId) (cache sv))"
  shows "isl (fst (getOnuById cfg now0 now1 externalId detailsFetch statusFetch (Inl e) sv))"
  using assms
  by (cases detailsFetch; cases statusFetch) (simp_all add: getOnuById_def Let_def)

text \<open>
  C8. \<^verbatim>\<open>getOnuById\<close> of \<^verbatim>\<open>src/services/onuService.js\<close>, with the detail and the
  status request answered and the signal request rejected (HTTP 500): the whole look-up
  fails with the error of the signal request.
\<close>

theorem getOnuById_fails_with_signal:
  "getOnuById \<lparr>ttl_onuDetails = 3600, ttl_onuStatus = 60, ttl_gps = 3600\<rparr> 1000 2000 ''test-id''
     (Inr (JObj [(''status'', JBool True), (''onu_details'', JObj [(''name'', JStr ''Test'')])]))
     (Inr (JObj [(''status'', JBool True), (''onu_status'', JStr ''Online'')]))
     (Inl (HttpFailure (Some 500)))
     \<lparr>cache = Map.empty, statusHistory = newStatusHistory\<rparr>
   = (Inl (HttpFailure (Some 500)), \<lparr>cache = Map.empty, statusHistory = newStatusHistory\<rparr>)"
  by (simp add: getOnuById_def CacheService_get_def nc_get_def)

text \<open>Read off the result: the look-up has failed.\<close>

theorem getOnuById_fails_with_signal_witness:
  "isl (fst (getOnuById \<lparr>ttl_onuDetails = 3600, ttl_onuStatus = 60, ttl_gps = 3600\<rparr> 1000 2000
     ''test-id''
     (Inr (JObj [(''status'', JBool True), (''onu_details'', JObj [(''name'', JStr ''Test'')])]))
     (Inr (JObj [(''status'', JBool True), (''onu_status'', JStr ''Online'')]))
     (Inl (HttpFailure (Some 500)))
     \<lparr>cache = Map.empty, statusHistory = newStatusHistory\<rparr>))"
  unfolding getOnuById_fails_with_signal by simp

text \<open>With the signal request answered, the same look-up succeeds.\<close>

lemma getOnuById_example:
  "fst (getOnuById \<lparr>ttl_onuDetails = 3600, ttl_onuStatus = 60, ttl_gps = 3600\<rparr> 1000 2000 ''test-id''
     (Inr (JObj [(''status'', JBool True), (''onu_details'', JObj [(''name'', JStr ''Test'')])]))
     (Inr (JObj [(''status'', JBool True), (''onu_status'', JStr ''Online'')]))
     (Inr (JObj [(''status'', JBool True), (''onu_signal'', JStr ''Good'')]))
     \<lparr>cache = Map.empty, statusHistory = newStatusHistory\<rparr>)
   = Inr (JObj [(''name'', JStr ''Test''), (''status'', JStr ''Online''),
                (''status_color'', JStr ''#28a745''), (''raw_status'', JStr ''Online''),
                (''signal'', JObj [(''status'', JBool True), (''onu_signal'', JStr ''Good'')])])"
  by code_simp

end
